theory Spec2Isabelle
  imports Complex_Main "HOL-Library.Char_ord" "HOL-Library.List_Lexorder"
    "HOL-Library.Product_Lexorder" "HOL-Library.Multiset"
begin

section \<open>Expense tracker: the backend service (server/index.js)\<close>

text \<open>
  Conventions of the embedding.
  \<^item> A finite JavaScript number is the rational it denotes (\<open>rat\<close>); zero and minus zero
    coincide, both falsy. A number that arrives in JSON is finite. The numbers the program
    computes are \<open>jsnumber\<close>s: every \<open>+\<close> of the source is \<open>js_add\<close>, the IEEE-754
    binary64 addition, which rounds and can overflow.
  \<^item> A string is a \<open>string\<close>, the list of its UTF-8 bytes, ordered lexicographically by
    byte value: the order MongoDB's default (binary) comparison uses for \<open>$gte\<close>,
    \<open>$lte\<close> and \<open>sort\<close>.
  \<^item> The collection is the list of its documents in insertion order, the order in which
    the store scans it.
  \<^item> Every handler body is wrapped in \<open>try { ... } catch\<close> answering 500; what can throw
    there is the store. \<open>db_ok\<close> says whether the store answers.
\<close>

subsection \<open>JavaScript values\<close>

datatype jsval =
    JUndefined
  | JNull
  | JBool bool
  | JNum rat
  | JStr string
  | JArr "jsval list"
  | JObj "(string \<times> jsval) list"

text \<open>\<open>!v\<close> is \<open>\<not> truthy v\<close>: undefined, null, false, 0 and the empty string are falsy.\<close>

fun truthy :: "jsval \<Rightarrow> bool" where
  "truthy JUndefined = False"
| "truthy JNull = False"
| "truthy (JBool b) = b"
| "truthy (JNum n) = (n \<noteq> 0)"
| "truthy (JStr s) = (s \<noteq> [])"
| "truthy (JArr _) = True"
| "truthy (JObj _) = True"

fun typeof :: "jsval \<Rightarrow> string" where
  "typeof JUndefined = ''undefined''"
| "typeof JNull = ''object''"
| "typeof (JBool _) = ''boolean''"
| "typeof (JNum _) = ''number''"
| "typeof (JStr _) = ''string''"
| "typeof (JArr _) = ''object''"
| "typeof (JObj _) = ''object''"

text \<open>
  Property read \<open>v.k\<close>. In an object built by \<open>JSON.parse\<close> a repeated key keeps its last
  value; a key that is not there reads as undefined. None of the keys read in this program
  is a property of an array, a string, a number or a boolean.
\<close>

fun js_get :: "jsval \<Rightarrow> string \<Rightarrow> jsval" where
  "js_get (JObj kvs) k = (case map_of (rev kvs) k of Some v \<Rightarrow> v | None \<Rightarrow> JUndefined)"
| "js_get _ k = JUndefined"

text \<open>A request field or query parameter that may be missing, as the JavaScript value read.\<close>

definition num_field :: "rat option \<Rightarrow> jsval" where
  "num_field x = (case x of None \<Rightarrow> JUndefined | Some n \<Rightarrow> JNum n)"

definition str_field :: "string option \<Rightarrow> jsval" where
  "str_field x = (case x of None \<Rightarrow> JUndefined | Some s \<Rightarrow> JStr s)"

subsection \<open>Numbers\<close>

text \<open>
  A finite double is the rational it denotes. \<open>fl64 x\<close> is the double nearest to \<open>x\<close>, ties
  to the even significand, with the exponent unbounded above: the significand has 53 bits;
  below \<open>2^-1022\<close> the spacing stays \<open>2^-1074\<close>.
\<close>

fun bit_length :: "nat \<Rightarrow> nat" where
  "bit_length n = (if n = 0 then 0 else Suc (bit_length (n div 2)))"

declare bit_length.simps [simp del]

text \<open>For \<open>0 < x\<close>, the \<open>e\<close> with \<open>2^e \<le> x < 2^(e+1)\<close>.\<close>

definition ilog2 :: "rat \<Rightarrow> int" where
  "ilog2 x =
     (if 1 \<le> x then int (bit_length (nat \<lfloor>x\<rfloor>)) - 1
      else - int (bit_length (nat (\<lceil>1 / x\<rceil> - 1))))"

definition round_half_even :: "rat \<Rightarrow> int" where
  "round_half_even x =
     (let n = \<lfloor>x\<rfloor>; r = x - of_int n
      in if r < 1 / 2 then n else if 1 / 2 < r then n + 1 else if even n then n else n + 1)"

definition fl64 :: "rat \<Rightarrow> rat" where
  "fl64 x =
     (if x = 0 then 0
      else
        let e = max (ilog2 \<bar>x\<bar> - 52) (- 1074)
        in of_int (round_half_even (x / 2 powi e)) * 2 powi e)"

text \<open>
  The value of a JavaScript expression of type number: a finite double, an infinity or
  \<open>NaN\<close>. \<open>round64\<close> is rounding as the arithmetic does it: a result that rounds to
  a magnitude of binary exponent 1024 or more (\<open>2^1024\<close> or beyond) is the infinity of its
  sign.
\<close>

datatype jsnumber = Finite rat | PosInfinity | NegInfinity | NaN

definition round64 :: "rat \<Rightarrow> jsnumber" where
  "round64 x =
     (let y = fl64 x
      in if y \<noteq> 0 \<and> 1024 \<le> ilog2 \<bar>y\<bar>
         then (if 0 < y then PosInfinity else NegInfinity)
         else Finite y)"

text \<open>\<open>a + b\<close> on numbers: the exact sum, rounded; the infinities and \<open>NaN\<close> as in IEEE 754.\<close>

fun js_add :: "jsnumber \<Rightarrow> jsnumber \<Rightarrow> jsnumber" where
  "js_add (Finite a) (Finite b) = round64 (a + b)"
| "js_add NaN _ = NaN"
| "js_add _ NaN = NaN"
| "js_add PosInfinity NegInfinity = NaN"
| "js_add NegInfinity PosInfinity = NaN"
| "js_add PosInfinity _ = PosInfinity"
| "js_add _ PosInfinity = PosInfinity"
| "js_add NegInfinity _ = NegInfinity"
| "js_add _ NegInfinity = NegInfinity"

text \<open>\<open>JSON.stringify\<close> of a number: an infinity and \<open>NaN\<close> are written \<open>null\<close>.\<close>

definition json_number :: "jsnumber \<Rightarrow> jsval" where
  "json_number n = (case n of Finite r \<Rightarrow> JNum r | _ \<Rightarrow> JNull)"

text \<open>
  Adding the numbers of a list from the left, starting from 0, each addition rounded: what
  \<open>xs.reduce((sum, x) => sum + x, 0)\<close> computes.
\<close>

definition sum64 :: "rat list \<Rightarrow> jsnumber" where
  "sum64 xs = foldl (\<lambda>sum x. js_add sum (Finite x)) (Finite 0) xs"

text \<open>
  No addition of that fold rounds or overflows, the running sum being \<open>s\<close>: every partial
  sum is itself a finite double.
\<close>

fun adds_exactly :: "rat \<Rightarrow> rat list \<Rightarrow> bool" where
  "adds_exactly s [] = True"
| "adds_exactly s (x # xs) = (round64 (s + x) = Finite (s + x) \<and> adds_exactly (s + x) xs)"

subsection \<open>The Expense schema and the collection\<close>

text \<open>
  \<open>expenseSchema\<close>: amount (Number, required), category (String, required), date (String,
  required), description (String, default \<open>''\<close>), createdAt (Date, default now); the store
  adds \<open>_id\<close> (here \<open>doc_id\<close>). The timestamp is kept as the ISO string it serialises to.
\<close>

record expense_doc =
  doc_id :: string
  amount :: rat
  category :: string
  date :: string
  description :: string
  createdAt :: string

type_synonym collection = "expense_doc list"

text \<open>What the environment supplies to an insertion: the fresh ObjectId and the clock.\<close>

record db_env =
  db_ok :: bool
  new_id :: string
  now :: string

datatype db_error = ValidationError | StoreError

text \<open>
  The body of \<open>POST /api/expenses\<close> after \<open>express.json()\<close>, restricted to the types of the
  interface: amount a number, the other three strings, each possibly missing (\<open>None\<close>:
  the key is not there; for amount, category and date a null reads the same, being falsy).
\<close>

record req_body =
  body_amount :: "rat option"
  body_category :: "string option"
  body_date :: "string option"
  body_description :: "string option"

type_synonym response = "nat \<times> jsval"

definition message :: "string \<Rightarrow> jsval" where
  "message m = JObj [(''message'', JStr m)]"

text \<open>\<open>res.json(doc)\<close>: Mongoose serialises the document's paths, its id and version key.\<close>

definition doc_json :: "expense_doc \<Rightarrow> jsval" where
  "doc_json d = JObj
     [(''_id'', JStr (doc_id d)),
      (''amount'', JNum (amount d)),
      (''category'', JStr (category d)),
      (''date'', JStr (date d)),
      (''description'', JStr (description d)),
      (''createdAt'', JStr (createdAt d)),
      (''__v'', JNum 0)]"

text \<open>
  \<open>new Expense({amount, category, date, description})\<close> with the schema's defaults filled
  in: a missing description becomes the empty string, createdAt the current time.
\<close>

definition new_Expense :: "db_env \<Rightarrow> rat \<Rightarrow> string \<Rightarrow> string \<Rightarrow> string option \<Rightarrow> expense_doc" where
  "new_Expense env a c d desc =
     \<lparr>doc_id = new_id env, amount = a, category = c, date = d,
      description = (case desc of None \<Rightarrow> [] | Some t \<Rightarrow> t),
      createdAt = now env\<rparr>"

text \<open>
  \<open>newExpense.save()\<close>: the \<open>required\<close> validators run (a required String must be
  non-empty), then the document is appended. A failed validation and a failing store both
  throw.
\<close>

definition save :: "db_env \<Rightarrow> req_body \<Rightarrow> collection \<Rightarrow> db_error + (expense_doc \<times> collection)" where
  "save env b store =
     (case (body_amount b, body_category b, body_date b) of
        (Some a, Some c, Some d) \<Rightarrow>
          if c = [] \<or> d = [] then Inl ValidationError
          else if \<not> db_ok env then Inl StoreError
          else Inr (new_Expense env a c d (body_description b),
                    store @ [new_Expense env a c d (body_description b)])
      | _ \<Rightarrow> Inl ValidationError)"

subsection \<open>POST /api/expenses\<close>

definition post_api_expenses :: "db_env \<Rightarrow> req_body \<Rightarrow> collection \<Rightarrow> response \<times> collection" where
  "post_api_expenses env body store =
     (if \<not> truthy (num_field (body_amount body))
         \<or> \<not> truthy (str_field (body_category body))
         \<or> \<not> truthy (str_field (body_date body))
      then ((400, message ''Please provide amount, category, and date''), store)
      else
        (case save env body store of
           Inr (savedExpense, store') \<Rightarrow> ((201, doc_json savedExpense), store')
         | Inl err \<Rightarrow> ((500, message ''Server error''), store)))"

subsection \<open>GET /api/expenses\<close>

text \<open>
  \<open>.sort({field: -1})\<close>, of the cursor and of the aggregation pipeline: descending by the
  key. The store does not promise an order among equal keys; this model keeps them in their
  previous order, and no statement below depends on that.
\<close>

definition sort_desc :: "('a \<Rightarrow> 'k::linorder) \<Rightarrow> 'a list \<Rightarrow> 'a list" where
  "sort_desc f xs = rev (sort_key f (rev xs))"

text \<open>
  The filter object: a key is set only when the query parameter is truthy, so a parameter
  that is missing or empty puts no condition on that field.
\<close>

record query =
  query_category :: "string option"
  query_date :: "string option"

definition build_query :: "string option \<Rightarrow> string option \<Rightarrow> query" where
  "build_query category_param date_param =
     \<lparr>query_category = (if truthy (str_field category_param) then category_param else None),
      query_date = (if truthy (str_field date_param) then date_param else None)\<rparr>"

definition matches :: "query \<Rightarrow> expense_doc \<Rightarrow> bool" where
  "matches q e =
     ((case query_category q of None \<Rightarrow> True | Some c \<Rightarrow> category e = c)
      \<and> (case query_date q of None \<Rightarrow> True | Some d \<Rightarrow> date e = d))"

text \<open>\<open>Expense.find(query).sort({ date: -1 })\<close>, the handler's \<open>expenses\<close>.\<close>

definition find_expenses :: "string option \<Rightarrow> string option \<Rightarrow> collection \<Rightarrow> expense_doc list" where
  "find_expenses category_param date_param store =
     sort_desc date (filter (matches (build_query category_param date_param)) store)"

definition get_api_expenses :: "bool \<Rightarrow> string option \<Rightarrow> string option \<Rightarrow> collection \<Rightarrow> response" where
  "get_api_expenses ok category_param date_param store =
     (if \<not> ok then (500, message ''Server error'')
      else (200, JArr (map doc_json (find_expenses category_param date_param store))))"

subsection \<open>GET /api/expenses/total\<close>

text \<open>\<open>Expense.find({ date: { $gte: start, $lte: end } })\<close>\<close>

definition find_between :: "string \<Rightarrow> string \<Rightarrow> collection \<Rightarrow> expense_doc list" where
  "find_between start end_date store = filter (\<lambda>e. start \<le> date e \<and> date e \<le> end_date) store"

text \<open>\<open>expenses.reduce((sum, expense) => sum + expense.amount, 0)\<close>\<close>

definition reduce_amounts :: "expense_doc list \<Rightarrow> jsnumber" where
  "reduce_amounts expenses =
     foldl (\<lambda>sum expense. js_add sum (Finite (amount expense))) (Finite 0) expenses"

definition get_api_expenses_total :: "bool \<Rightarrow> string option \<Rightarrow> string option \<Rightarrow> collection \<Rightarrow> response" where
  "get_api_expenses_total ok start_param end_param store =
     (case (start_param, end_param) of
        (Some start, Some end_date) \<Rightarrow>
          if \<not> truthy (JStr start) \<or> \<not> truthy (JStr end_date)
          then (400, message ''Please provide start and end dates'')
          else if \<not> ok then (500, message ''Server error'')
          else (200, JObj [(''total'',
                  json_number (reduce_amounts (find_between start end_date store)))])
      | _ \<Rightarrow> (400, message ''Please provide start and end dates''))"

subsection \<open>GET /api/expenses/by-category\<close>










subsection \<open>Sample records\<close>

text \<open>
  The first two of \<open>sampleExpenses\<close> in \<open>seedInitialData\<close>, as stored: the amounts are
  the doubles of the literals 45.99 and 12.50, the identifier and the timestamp are the
  store's.
\<close>

definition sample_food :: expense_doc where
  "sample_food =
     \<lparr>doc_id = ''6787a1b2c3d4e5f601234501'', amount = fl64 (4599 / 100), category = ''Food'',
      date = ''2025-01-15'', description = ''Grocery shopping at Whole Foods'',
      createdAt = ''2025-01-15T09:00:00.000Z''\<rparr>"

definition sample_transport :: expense_doc where
  "sample_transport =
     \<lparr>doc_id = ''6787a1b2c3d4e5f601234502'', amount = 25 / 2, category = ''Transportation'',
      date = ''2025-01-14'', description = ''Uber ride to work'',
      createdAt = ''2025-01-15T09:00:00.000Z''\<rparr>"

section \<open>The client application (src/App.tsx)\<close>

subsection \<open>Component state\<close>

text \<open>
  \<open>interface Expense\<close>: what the component keeps of a fetched element once the guard
  \<open>isValidExpense\<close> has let it through. \<open>exp_id\<close> is the value of \<open>_id\<close> as it arrived
  (undefined when absent); the guard lets a missing description through.
\<close>

record expense =
  exp_id :: jsval
  exp_amount :: rat
  exp_category :: string
  exp_date :: string
  exp_description :: "string option"

text \<open>
  The \<open>useState\<close> cells of \<open>App\<close>. The four fields of the add form are \<open>amount\<close>,
  \<open>category\<close>, \<open>date\<close> and \<open>description\<close> in the source (here prefixed, the plain names
  being taken by the schema).
\<close>

record app_state =
  expenses :: "expense list"
  filteredExpenses :: "expense list"
  loading :: bool
  error :: "string option"
  totalAmount :: jsnumber
  form_amount :: string
  form_category :: string
  form_date :: string
  form_description :: string
  filterCategory :: string
  filterDate :: string
  filterStartDate :: string
  filterEndDate :: string
  showAddModal :: bool
  showFilterModal :: bool

text \<open>The state at mount; \<open>today\<close> is \<open>format(new Date(), 'yyyy-MM-dd')\<close>.\<close>

definition initial_state :: "string \<Rightarrow> app_state" where
  "initial_state today =
     \<lparr>expenses = [], filteredExpenses = [], loading = True, error = None,
      totalAmount = Finite 0,
      form_amount = [], form_category = [], form_date = today, form_description = [],
      filterCategory = [], filterDate = [], filterStartDate = [], filterEndDate = [],
      showAddModal = False, showFilterModal = False\<rparr>"

subsection \<open>\<open>String.prototype.trim\<close>\<close>

text \<open>
  The code points \<open>trim\<close> removes (WhiteSpace and LineTerminator of ECMAScript), each as its
  UTF-8 bytes: U+0009 to U+000D, U+0020, U+00A0, U+1680, U+2000 to U+200A, U+2028, U+2029,
  U+202F, U+205F, U+3000, U+FEFF.
\<close>

definition white_space :: "string list" where
  "white_space =
     [[CHR 0x09], [CHR 0x0A], [CHR 0x0B], [CHR 0x0C], [CHR 0x0D], [CHR 0x20],
      [CHR 0xC2, CHR 0xA0],
      [CHR 0xE1, CHR 0x9A, CHR 0x80],
      [CHR 0xE2, CHR 0x80, CHR 0x80], [CHR 0xE2, CHR 0x80, CHR 0x81],
      [CHR 0xE2, CHR 0x80, CHR 0x82], [CHR 0xE2, CHR 0x80, CHR 0x83],
      [CHR 0xE2, CHR 0x80, CHR 0x84], [CHR 0xE2, CHR 0x80, CHR 0x85],
      [CHR 0xE2, CHR 0x80, CHR 0x86], [CHR 0xE2, CHR 0x80, CHR 0x87],
      [CHR 0xE2, CHR 0x80, CHR 0x88], [CHR 0xE2, CHR 0x80, CHR 0x89],
      [CHR 0xE2, CHR 0x80, CHR 0x8A],
      [CHR 0xE2, CHR 0x80, CHR 0xA8], [CHR 0xE2, CHR 0x80, CHR 0xA9],
      [CHR 0xE2, CHR 0x80, CHR 0xAF],
      [CHR 0xE2, CHR 0x81, CHR 0x9F],
      [CHR 0xE3, CHR 0x80, CHR 0x80],
      [CHR 0xEF, CHR 0xBB, CHR 0xBF]]"

text \<open>Removes from the front of \<open>s\<close>, as long as there is one, a member of \<open>ws\<close>.\<close>

function strip_prefixes :: "string list \<Rightarrow> string \<Rightarrow> string" where
  "strip_prefixes ws s =
     (case List.find (\<lambda>w. w \<noteq> [] \<and> take (length w) s = w) ws of
        None \<Rightarrow> s
      | Some w \<Rightarrow> strip_prefixes ws (drop (length w) s))"
  by pat_completeness auto
termination
proof (relation "measure (\<lambda>(ws, s). length s)")
  show "wf (measure (\<lambda>(ws, s). length s))" by simp
next
  fix ws :: "string list" and s w :: string
  assume "List.find (\<lambda>w. w \<noteq> [] \<and> take (length w) s = w) ws = Some w"
  then have "w \<noteq> []" and "take (length w) s = w"
    by (auto simp: find_Some_iff)
  then have "s \<noteq> []" by auto
  with \<open>w \<noteq> []\<close> show "((ws, drop (length w) s), (ws, s)) \<in> measure (\<lambda>(ws, s). length s)"
    by simp
qed

definition js_trim :: "string \<Rightarrow> string" where
  "js_trim s = rev (strip_prefixes (map rev white_space) (rev (strip_prefixes white_space s)))"

subsection \<open>\<open>isValidExpense\<close>\<close>

text \<open>
  The type guard. \<open>typeof e.amount === 'number'\<close> is the case \<open>JNum\<close>, where \<open>isNaN\<close> is
  false (a number that arrived in JSON is never \<open>NaN\<close>); \<open>typeof e.category === 'string'\<close>
  is the case \<open>JStr\<close>.
\<close>

definition isValidExpense :: "jsval \<Rightarrow> bool" where
  "isValidExpense expense =
     (if \<not> truthy expense \<or> typeof expense \<noteq> ''object'' then False
      else
        (case js_get expense ''amount'' of JNum a \<Rightarrow> 0 < a | _ \<Rightarrow> False)
        \<and> (case js_get expense ''category'' of JStr c \<Rightarrow> js_trim c \<noteq> [] | _ \<Rightarrow> False)
        \<and> (case js_get expense ''date'' of JStr d \<Rightarrow> js_trim d \<noteq> [] | _ \<Rightarrow> False)
        \<and> (js_get expense ''description'' = JUndefined
             \<or> typeof (js_get expense ''description'') = ''string''))"

subsection \<open>\<open>apiRequest\<close>\<close>

text \<open>
  A request is its URL, kept as the path and the entries of the \<open>URLSearchParams\<close>. What
  \<open>fetch\<close> brings back: a network failure, or a status with the body as \<open>response.json()\<close>
  reads it (\<open>None\<close>: the body is not JSON). The network is a function from the one to the
  other.
\<close>

datatype request = Get string "(string \<times> string) list"

datatype fetch_result = NetworkFailure | HttpResponse nat "jsval option"

type_synonym network = "request \<Rightarrow> fetch_result"

datatype thrown = ApiRequestFailed | InvalidResponseFormat | InvalidTotal | TypeError

definition response_ok :: "nat \<Rightarrow> bool" where
  "response_ok status = (200 \<le> status \<and> status \<le> 299)"

definition apiRequest :: "network \<Rightarrow> request \<Rightarrow> thrown + jsval" where
  "apiRequest net url =
     (case net url of
        NetworkFailure \<Rightarrow> Inl ApiRequestFailed
      | HttpResponse status body \<Rightarrow>
          if \<not> response_ok status then Inl ApiRequestFailed
          else (case body of None \<Rightarrow> Inl ApiRequestFailed | Some data \<Rightarrow> Inr data))"

subsection \<open>Operations\<close>

text \<open>
  An element the guard accepts, at the type \<open>Expense\<close> it is narrowed to; \<open>None\<close> for an
  element the guard refuses.
\<close>

definition as_expense :: "jsval \<Rightarrow> expense option" where
  "as_expense e =
     (if isValidExpense e
      then (case (js_get e ''amount'', js_get e ''category'', js_get e ''date'') of
              (JNum a, JStr c, JStr d) \<Rightarrow>
                Some \<lparr>exp_id = js_get e ''_id'', exp_amount = a, exp_category = c, exp_date = d,
                      exp_description =
                        (case js_get e ''description'' of JStr t \<Rightarrow> Some t | _ \<Rightarrow> None)\<rparr>
            | _ \<Rightarrow> None)
      else None)"

text \<open>\<open>data.filter(isValidExpense)\<close>, an \<open>Expense[]\<close>.\<close>

definition filter_valid :: "jsval list \<Rightarrow> expense list" where
  "filter_valid data = List.map_filter as_expense data"

definition calculateTotal :: "expense list \<Rightarrow> app_state \<Rightarrow> app_state" where
  "calculateTotal expenseList s =
     s\<lparr>totalAmount :=
         foldl (\<lambda>sum expense. js_add sum (Finite (exp_amount expense))) (Finite 0) expenseList\<rparr>"

text \<open>\<open>Array.isArray(data)\<close>, else \<open>throw new Error('Invalid response format: expected array')\<close>.\<close>

definition expect_array :: "thrown + jsval \<Rightarrow> thrown + jsval list" where
  "expect_array r =
     (case r of
        Inl err \<Rightarrow> Inl err
      | Inr data \<Rightarrow> (case data of JArr xs \<Rightarrow> Inr xs | _ \<Rightarrow> Inl InvalidResponseFormat))"

definition fetchExpenses :: "network \<Rightarrow> app_state \<Rightarrow> app_state" where
  "fetchExpenses net s =
     (let s1 = s\<lparr>loading := True, error := None\<rparr>;
          s2 = (case expect_array (apiRequest net (Get ''http://localhost:5000/api/expenses'' [])) of
                  Inr data \<Rightarrow>
                    let validExpenses = filter_valid data
                    in calculateTotal validExpenses
                         (s1\<lparr>expenses := validExpenses, filteredExpenses := validExpenses\<rparr>)
                | Inl err \<Rightarrow>
                    s1\<lparr>error := Some ''Error fetching expenses. Please try again later.'',
                       expenses := [], filteredExpenses := [], totalAmount := Finite 0\<rparr>)
      in s2\<lparr>loading := False\<rparr>)"

text \<open>The URL \<open>applyFilters\<close> asks for: a filter field is appended only when it is not empty.\<close>

definition filter_request :: "app_state \<Rightarrow> request" where
  "filter_request s =
     Get ''http://localhost:5000/api/expenses''
       ((if truthy (JStr (filterCategory s)) then [(''category'', filterCategory s)] else [])
        @ (if truthy (JStr (filterDate s)) then [(''date'', filterDate s)] else []))"

definition applyFilters :: "network \<Rightarrow> app_state \<Rightarrow> app_state" where
  "applyFilters net s =
     (let s1 = s\<lparr>loading := True, error := None\<rparr>;
          s2 = (case expect_array (apiRequest net (filter_request s)) of
                  Inr data \<Rightarrow>
                    let validExpenses = filter_valid data
                    in (calculateTotal validExpenses (s1\<lparr>filteredExpenses := validExpenses\<rparr>))
                         \<lparr>showFilterModal := False\<rparr>
                | Inl err \<Rightarrow>
                    s1\<lparr>error := Some ''Error applying filters. Please try again.'',
                       filteredExpenses := [], totalAmount := Finite 0\<rparr>)
      in s2\<lparr>loading := False\<rparr>)"

definition total_request :: "app_state \<Rightarrow> request" where
  "total_request s =
     Get ''http://localhost:5000/api/expenses/total''
       [(''start'', filterStartDate s), (''end'', filterEndDate s)]"

text \<open>
  \<open>typeof data.total !== 'number' || isNaN(data.total)\<close> throws; so does reading \<open>total\<close>
  of a body that is null.
\<close>

definition expect_total :: "thrown + jsval \<Rightarrow> thrown + rat" where
  "expect_total r =
     (case r of
        Inl err \<Rightarrow> Inl err
      | Inr data \<Rightarrow>
          if data = JNull then Inl TypeError
          else (case js_get data ''total'' of JNum t \<Rightarrow> Inr t | _ \<Rightarrow> Inl InvalidTotal))"

definition getTotalForDateRange :: "network \<Rightarrow> app_state \<Rightarrow> app_state" where
  "getTotalForDateRange net s =
     (if \<not> truthy (JStr (filterStartDate s)) \<or> \<not> truthy (JStr (filterEndDate s))
      then s\<lparr>error := Some ''Please select both start and end dates''\<rparr>
      else
        let s1 = s\<lparr>loading := True, error := None\<rparr>;
            s2 = (case expect_total (apiRequest net (total_request s)) of
                    Inr t \<Rightarrow> s1\<lparr>totalAmount := Finite t, showFilterModal := False\<rparr>
                  | Inl err \<Rightarrow>
                      s1\<lparr>error := Some ''Error fetching total. Please try again.'',
                         totalAmount := Finite 0\<rparr>)
        in s2\<lparr>loading := False\<rparr>)"

definition resetFilters :: "app_state \<Rightarrow> app_state" where
  "resetFilters s =
     (calculateTotal (expenses s)
        (s\<lparr>filterCategory := [], filterDate := [], filterStartDate := [], filterEndDate := [],
           filteredExpenses := expenses s\<rparr>))
       \<lparr>showFilterModal := False, error := None\<rparr>"

subsection \<open>Sample element\<close>

text \<open>The first seed record as the client keeps it once fetched.\<close>

definition sample_expense :: expense where
  "sample_expense =
     \<lparr>exp_id = JStr ''6787a1b2c3d4e5f601234501'', exp_amount = fl64 (4599 / 100),
      exp_category = ''Food'', exp_date = ''2025-01-15'',
      exp_description = Some ''Grocery shopping at Whole Foods''\<rparr>"

section \<open>Properties of the arithmetic\<close>

subsection \<open>Rounding\<close>

text \<open>
  What \<open>fl64\<close> computes: \<open>ilog2\<close> is the binary exponent, the rounded quotient is within
  one half of the exact one, so the result is within half a spacing of \<open>x\<close> and its
  significand has at most 53 bits.
\<close>

lemma bit_length_bounds:
  "0 < n \<Longrightarrow> 2 ^ (bit_length n - 1) \<le> n \<and> n < 2 ^ bit_length n"
proof (induction n rule: bit_length.induct)
  case (1 n)
  show ?case
  proof (cases "n div 2 = 0")
    case True
    with \<open>0 < n\<close> have "n = 1" by (simp add: div_eq_0_iff) 
    then show ?thesis by (simp add: bit_length.simps)
  next
    case False
    with "1.IH" \<open>0 < n\<close> have IH: "2 ^ (bit_length (n div 2) - 1) \<le> n div 2"
      "n div 2 < 2 ^ bit_length (n div 2)" by auto
    have pos: "0 < bit_length (n div 2)"
      using False by (simp add: bit_length.simps [of "n div 2"])
    have bl: "bit_length n = Suc (bit_length (n div 2))"
      using \<open>0 < n\<close> by (simp add: bit_length.simps [of n])
    from pos obtain b where b: "bit_length (n div 2) = Suc b"
      by (cases "bit_length (n div 2)") auto
    from IH b have "2 ^ b \<le> n div 2" "n div 2 < 2 * 2 ^ b" by simp_all
    then have "2 * 2 ^ b \<le> n" "n < 2 * (2 * 2 ^ b)" by linarith+
    then show ?thesis by (simp add: bl b)
  qed
qed

lemma round_half_even_error: "\<bar>of_int (round_half_even x) - x\<bar> \<le> 1 / 2"
proof -
  define n where "n = \<lfloor>x\<rfloor>"
  define r where "r = x - of_int n"
  have r: "0 \<le> r" "r < 1" unfolding r_def n_def by linarith+
  have x: "x = of_int n + r" by (simp add: r_def)
  consider (down) "round_half_even x = n" "r \<le> 1 / 2"
    | (up) "round_half_even x = n + 1" "1 / 2 \<le> r"
    unfolding round_half_even_def n_def [symmetric] r_def [symmetric] Let_def
    by (cases "r < 1 / 2"; cases "1 / 2 < r"; cases "even n") auto
  then show ?thesis
  proof cases
    case down
    with r show ?thesis by (simp add: x)
  next
    case up
    with r show ?thesis by (simp add: x)
  qed
qed

lemma ilog2_bounds:
  assumes "0 < x"
  shows "2 powi ilog2 x \<le> x \<and> x < 2 powi (ilog2 x + 1)"
proof (cases "1 \<le> x")
  case True
  define n where "n = nat \<lfloor>x\<rfloor>"
  have n: "0 < n" "of_nat n \<le> x" "x < of_nat n + 1"
    using True by (simp_all add: n_def) linarith+
  from bit_length_bounds [OF n(1)] have b: "2 ^ (bit_length n - 1) \<le> n" "n < 2 ^ bit_length n"
    by simp_all
  have pos: "0 < bit_length n" using n(1) by (simp add: bit_length.simps [of n])
  have e: "ilog2 x = int (bit_length n - 1)" "ilog2 x + 1 = int (bit_length n)"
    using True pos by (simp_all add: ilog2_def n_def)
  have "(2::rat) ^ (bit_length n - 1) \<le> of_nat n"
    using b(1) by (metis of_nat_le_iff of_nat_numeral of_nat_power)
  moreover have "of_nat n + 1 \<le> (2::rat) ^ bit_length n"
  proof -
    from b(2) have "Suc n \<le> 2 ^ bit_length n" by simp
    then have "(of_nat (Suc n) :: rat) \<le> of_nat (2 ^ bit_length n)"
      by (simp only: of_nat_le_iff)
    then show ?thesis by simp
  qed
  moreover have "2 powi ilog2 x = (2::rat) ^ (bit_length n - 1)"
    by (simp only: e(1) power_int_of_nat)
  moreover have "2 powi (ilog2 x + 1) = (2::rat) ^ bit_length n"
    by (simp only: e(2) power_int_of_nat)
  ultimately show ?thesis
    using n(2,3) by linarith
next
  case False
  define y where "y = 1 / x"
  define m where "m = nat (\<lceil>y\<rceil> - 1)"
  from False assms have y1: "1 < y" by (simp add: y_def)
  then have c2: "2 \<le> \<lceil>y\<rceil>" by linarith
  then have m: "0 < m" "of_nat m < y" "y \<le> of_nat m + 1"
    unfolding m_def by (simp_all add: of_nat_nat) linarith+
  from bit_length_bounds [OF m(1)] have b: "2 ^ (bit_length m - 1) \<le> m" "m < 2 ^ bit_length m"
    by simp_all
  have pos: "0 < bit_length m" using m(1) by (simp add: bit_length.simps [of m])
  have lo: "(2::rat) ^ (bit_length m - 1) \<le> of_nat m"
    using b(1) by (metis of_nat_le_iff of_nat_numeral of_nat_power)
  have hi: "of_nat m + 1 \<le> (2::rat) ^ bit_length m"
  proof -
    from b(2) have "Suc m \<le> 2 ^ bit_length m" by simp
    then have "(of_nat (Suc m) :: rat) \<le> of_nat (2 ^ bit_length m)"
      by (simp only: of_nat_le_iff)
    then show ?thesis by simp
  qed
  have e: "ilog2 x = - int (bit_length m)" "ilog2 x + 1 = - int (bit_length m - 1)"
    using False pos by (simp_all add: ilog2_def m_def y_def)
  have p1: "2 powi ilog2 x = 1 / (2::rat) ^ bit_length m"
    by (simp only: e(1) power_int_minus power_int_of_nat inverse_eq_divide)
  have p2: "2 powi (ilog2 x + 1) = 1 / (2::rat) ^ (bit_length m - 1)"
    by (simp only: e(2) power_int_minus power_int_of_nat inverse_eq_divide)
  have x: "x = 1 / y" by (simp add: y_def)
  have "y \<le> 2 ^ bit_length m" using m(3) hi by linarith
  then have g1: "1 / (2::rat) ^ bit_length m \<le> 1 / y"
    using y1 by (simp add: frac_le)
  have "2 ^ (bit_length m - 1) < y" using m(2) lo by linarith
  then have g2: "1 / y < 1 / (2::rat) ^ (bit_length m - 1)"
    by (simp add: frac_less2)
  from g1 g2 have "1 / (2::rat) ^ bit_length m \<le> x" "x < 1 / (2::rat) ^ (bit_length m - 1)"
    by (simp_all only: x [symmetric])
  then show ?thesis by (simp only: p1 p2)
qed

text \<open>The result is a significand of at most 53 bits times the spacing, within half of it.\<close>

lemma fl64_error:
  assumes "x \<noteq> 0"
  shows "\<bar>fl64 x - x\<bar> \<le> 2 powi (max (ilog2 \<bar>x\<bar> - 52) (- 1074)) / 2"
proof -
  define e where "e = max (ilog2 \<bar>x\<bar> - 52) (- 1074)"
  have p: "(0::rat) < 2 powi e" by simp
  have "fl64 x - x = (of_int (round_half_even (x / 2 powi e)) - x / 2 powi e) * 2 powi e"
    using assms p by (simp add: fl64_def e_def [symmetric] Let_def algebra_simps)
  then have "\<bar>fl64 x - x\<bar> = \<bar>of_int (round_half_even (x / 2 powi e)) - x / 2 powi e\<bar> * 2 powi e"
    using p by (simp add: abs_mult)
  also have "\<dots> \<le> 1 / 2 * 2 powi e"
    using round_half_even_error [of "x / 2 powi e"] p by (intro mult_right_mono) simp_all
  finally show ?thesis by (simp add: e_def)
qed


lemma round_half_even_cases: "round_half_even q = \<lfloor>q\<rfloor> \<or> round_half_even q = \<lfloor>q\<rfloor> + 1"
  by (simp add: round_half_even_def Let_def)

lemma fl64_significand:
  assumes "x \<noteq> 0"
  shows "\<bar>round_half_even (x / 2 powi (max (ilog2 \<bar>x\<bar> - 52) (- 1074)))\<bar> \<le> 2 ^ 53"
proof -
  define e where "e = max (ilog2 \<bar>x\<bar> - 52) (- 1074)"
  define q where "q = x / 2 powi e"
  have p: "(0::rat) < 2 powi e" by simp
  from assms have "\<bar>x\<bar> < 2 powi (ilog2 \<bar>x\<bar> + 1)"
    using ilog2_bounds [of "\<bar>x\<bar>"] by simp
  also have "\<dots> \<le> 2 powi (e + 53)"
    by (intro power_int_increasing) (simp_all add: e_def)
  also have "\<dots> = 2 powi e * 2 ^ 53"
    by (simp add: power_int_add)
  finally have "\<bar>q\<bar> < 2 ^ 53"
    using p by (simp add: q_def abs_mult pos_divide_less_eq mult.commute)
  then have "- (2 ^ 53) < q" "q < 2 ^ 53" by (simp_all add: abs_less_iff)
  then have "- (2 ^ 53) \<le> \<lfloor>q\<rfloor>" "\<lfloor>q\<rfloor> < 2 ^ 53"
    by (simp_all add: le_floor_iff floor_less_iff)
  with round_half_even_cases [of q] show ?thesis
    unfolding q_def e_def by linarith
qed


lemma round_half_even_ge:
  assumes "of_int k \<le> q"
  shows "k \<le> round_half_even q"
proof -
  from assms have "k \<le> \<lfloor>q\<rfloor>" by (simp add: le_floor_iff)
  with round_half_even_cases [of q] show ?thesis by linarith
qed

lemma ilog2_ge:
  assumes "0 < y" and "2 powi k \<le> y"
  shows "k \<le> ilog2 y"
proof (rule ccontr)
  assume "\<not> k \<le> ilog2 y"
  then have "ilog2 y + 1 \<le> k" by simp
  then have "(2::rat) powi (ilog2 y + 1) \<le> 2 powi k"
    by (intro power_int_increasing) simp_all
  with ilog2_bounds [OF assms(1)] assms(2) show False by simp
qed

text \<open>From \<open>2^1024\<close> on, a sum is plus infinity.\<close>

lemma round64_overflow:
  assumes "2 ^ 1024 \<le> x"
  shows "round64 x = PosInfinity"
proof -
  have "(0::rat) < 2 ^ 1024" by (rule zero_less_power) simp
  from this assms have pos: "0 < x" by (rule less_le_trans)
  define l where "l = ilog2 \<bar>x\<bar>"
  define e where "e = max (l - 52) (- 1074)"
  from pos have ax: "\<bar>x\<bar> = x" by simp
  from ilog2_bounds [OF pos] have b: "2 powi l \<le> x" "x < 2 powi (l + 1)"
    by (simp_all add: l_def ax)
  have l: "1024 \<le> l"
  proof (rule ccontr)
    assume "\<not> 1024 \<le> l"
    then have "l + 1 \<le> 1024" by simp
    then have "(2::rat) powi (l + 1) \<le> 2 powi 1024"
      by (intro power_int_increasing) simp_all
    with b(2) assms show False by simp
  qed
  then have e: "e = l - 52" by (simp add: e_def)
  have "(2::rat) powi 52 = 2 powi l / 2 powi e"
    by (simp add: e power_int_diff)
  also have "\<dots> \<le> x / 2 powi e"
    using b(1) by (simp add: divide_right_mono)
  finally have "of_int (2 ^ 52) \<le> x / 2 powi e" by simp
  then have "2 ^ 52 \<le> round_half_even (x / 2 powi e)"
    by (rule round_half_even_ge)
  then have "(of_int (2 ^ 52) :: rat) \<le> of_int (round_half_even (x / 2 powi e))"
    by (simp only: of_int_le_iff)
  then have C: "2 powi 52 * 2 powi e \<le> of_int (round_half_even (x / 2 powi e)) * (2::rat) powi e"
    by (intro mult_right_mono) simp_all
  have B: "(2::rat) powi l = 2 powi 52 * 2 powi e"
    unfolding e using power_int_add [of "2::rat" 52 "l - 52"] by simp
  have A: "(2::rat) powi 1024 \<le> 2 powi l"
    using l by (intro power_int_increasing) simp_all
  have D: "fl64 x = of_int (round_half_even (x / 2 powi e)) * 2 powi e"
    using pos by (simp add: fl64_def Let_def e_def l_def)
  from A B C have "(2::rat) powi 1024 \<le> of_int (round_half_even (x / 2 powi e)) * 2 powi e"
    by (metis order_trans)
  then have big: "2 powi 1024 \<le> fl64 x" by (simp only: D)
  have "(0::rat) < 2 powi 1024" by simp
  from this big have y: "0 < fl64 x" by (rule less_le_trans)
  then have "\<bar>fl64 x\<bar> = fl64 x" by simp
  with ilog2_ge [OF y big] have "1024 \<le> ilog2 \<bar>fl64 x\<bar>" by simp
  with y show ?thesis by (simp add: round64_def Let_def)
qed

lemma bit_length_pow2: "bit_length (2 ^ n) = Suc n"
proof (induction n)
  case 0
  show ?case by (simp add: bit_length.simps [of "Suc 0"] bit_length.simps [of 0])
next
  case (Suc n)
  have "bit_length (2 ^ Suc n) = Suc (bit_length (2 ^ Suc n div 2))"
    by (subst bit_length.simps) simp
  with Suc show ?case by simp
qed

lemma round_half_even_of_int: "round_half_even (of_int k) = k"
  by (simp add: round_half_even_def)

text \<open>A power of two from \<open>2^52\<close> on is a double (the exponent unbounded).\<close>

lemma ilog2_pow2: "ilog2 \<bar>(2::rat) ^ n\<bar> = int n"
proof -
  have "\<lfloor>(2::rat) ^ n\<rfloor> = 2 ^ n"
    by (metis floor_of_int of_int_numeral of_int_power)
  then have "nat \<lfloor>(2::rat) ^ n\<rfloor> = 2 ^ n"
    by (simp add: nat_power_eq)
  then have "bit_length (nat \<lfloor>(2::rat) ^ n\<rfloor>) = Suc n"
    by (simp only: bit_length_pow2)
  then show ?thesis
    by (simp add: ilog2_def)
qed

lemma fl64_pow2:
  assumes "52 \<le> n"
  shows "fl64 (2 ^ n) = 2 ^ n"
proof -
  have e: "max (int n - 52) (- 1074) = int n - 52"
    using assms by simp
  have "(2::rat) ^ n / 2 powi (int n - 52) = 2 powi int n / 2 powi (int n - 52)"
    by (simp only: power_int_of_nat)
  also have "\<dots> = 2 powi (int n - (int n - 52))"
    by (rule power_int_diff [symmetric]) simp
  also have "\<dots> = of_int (2 ^ 52)"
    by simp
  finally have q: "(2::rat) ^ n / 2 powi (int n - 52) = of_int (2 ^ 52)" .
  have "fl64 (2 ^ n) = of_int (2 ^ 52) * 2 powi (int n - 52)"
    by (simp only: fl64_def ilog2_pow2 e Let_def q round_half_even_of_int) simp
  also have "\<dots> = 2 powi 52 * 2 powi (int n - 52)"
    by simp
  also have "\<dots> = 2 powi (52 + (int n - 52))"
    by (rule power_int_add [symmetric]) simp
  also have "\<dots> = 2 ^ n"
    by (simp add: power_int_of_nat)
  finally show ?thesis .
qed

lemma round64_pow2_1023: "round64 (2 ^ 1023) = Finite (2 ^ 1023)"
proof -
  have y: "fl64 (2 ^ 1023) = 2 ^ 1023" by (rule fl64_pow2) simp
  have "ilog2 \<bar>(2::rat) ^ 1023\<bar> = int 1023" by (rule ilog2_pow2)
  then have "\<not> 1024 \<le> ilog2 \<bar>(2::rat) ^ 1023\<bar>" by (simp del: power_numeral)
  then show ?thesis by (simp only: round64_def y Let_def if_False simp_thms)
qed

lemma round64_pow2_1024: "round64 (2 ^ 1023 + 2 ^ 1023) = PosInfinity"
  by (rule round64_overflow) simp

subsection \<open>Sums\<close>

lemma foldl_add_exact:
  "adds_exactly s xs \<Longrightarrow>
     foldl (\<lambda>sum x. js_add sum (Finite x)) (Finite s) xs = Finite (s + sum_list xs)"
  by (induction xs arbitrary: s) (simp_all add: add.assoc)

lemma sum64_exact: "adds_exactly 0 xs \<Longrightarrow> sum64 xs = Finite (sum_list xs)"
  using foldl_add_exact [of 0 xs] by (simp add: sum64_def)

lemma reduce_amounts_sum64: "reduce_amounts xs = sum64 (map amount xs)"
  by (simp add: reduce_amounts_def sum64_def foldl_map)

text \<open>0.1 + 0.2, and 12.5 alone.\<close>

lemma sum64_tenth_fifth:
  "sum64 [fl64 (1 / 10), fl64 (1 / 5)] = Finite (1351079888211149 / 4503599627370496)"
  by code_simp

lemma tenth_fifth_exact: "fl64 (1 / 10) + fl64 (1 / 5) = 10808639105689191 / 36028797018963968"
  by code_simp

lemma adds_exactly_transport: "adds_exactly 0 [25 / 2]"
  by code_simp

lemma sum64_transport: "sum64 [25 / 2] = Finite (25 / 2)"
  using sum64_exact [OF adds_exactly_transport] by simp

text \<open>\<open>2^1023\<close> twice: the second addition overflows.\<close>

lemma sum64_overflow: "sum64 [2 ^ 1023, 2 ^ 1023] = PosInfinity"
proof -
  have "sum64 [2 ^ 1023, 2 ^ 1023] = js_add (round64 (2 ^ 1023)) (Finite (2 ^ 1023))"
    by (simp add: sum64_def)
  also have "\<dots> = round64 (2 ^ 1023 + 2 ^ 1023)"
    by (simp only: round64_pow2_1023 js_add.simps)
  finally show ?thesis by (simp only: round64_pow2_1024)
qed

section \<open>Properties of the backend\<close>

lemma post_missing_field:
  assumes "body_amount b = None \<or> body_category b = None \<or> body_date b = None"
  shows "post_api_expenses env b store =
           ((400, message ''Please provide amount, category, and date''), store)"
  using assms by (auto simp: post_api_expenses_def num_field_def str_field_def)

lemma post_zero_amount:
  assumes "body_amount b = Some 0"
  shows "post_api_expenses env b store =
           ((400, message ''Please provide amount, category, and date''), store)"
  using assms by (simp add: post_api_expenses_def num_field_def)

lemma post_empty_string:
  assumes "body_category b = Some [] \<or> body_date b = Some []"
  shows "post_api_expenses env b store =
           ((400, message ''Please provide amount, category, and date''), store)"
  using assms by (auto simp: post_api_expenses_def str_field_def)

lemma post_created:
  assumes "body_amount b = Some a" "a \<noteq> 0"
    and "body_category b = Some c" "c \<noteq> []"
    and "body_date b = Some d" "d \<noteq> []"
    and "db_ok env"
  shows "post_api_expenses env b store =
           ((201, doc_json (new_Expense env a c d (body_description b))),
            store @ [new_Expense env a c d (body_description b)])"
  using assms
  by (simp add: post_api_expenses_def num_field_def str_field_def save_def)

lemma doc_json_id: "js_get (doc_json d) ''_id'' = JStr (doc_id d)"
  by (simp add: doc_json_def)

lemma post_status_cases:
  "post_api_expenses env b store =
     ((400, message ''Please provide amount, category, and date''), store)
   \<or> post_api_expenses env b store = ((500, message ''Server error''), store)
   \<or> (\<exists>a c d. body_amount b = Some a \<and> a \<noteq> 0 \<and> body_category b = Some c \<and> c \<noteq> []
          \<and> body_date b = Some d \<and> d \<noteq> [] \<and> db_ok env
          \<and> post_api_expenses env b store =
                ((201, doc_json (new_Expense env a c d (body_description b))),
                 store @ [new_Expense env a c d (body_description b)]))"
proof (cases "truthy (num_field (body_amount b)) \<and> truthy (str_field (body_category b))
              \<and> truthy (str_field (body_date b))")
  case False
  then show ?thesis by (auto simp: post_api_expenses_def)
next
  case True
  then obtain a c d where f: "body_amount b = Some a" "a \<noteq> 0" "body_category b = Some c"
      "c \<noteq> []" "body_date b = Some d" "d \<noteq> []"
    by (auto simp: num_field_def str_field_def split: option.splits)
  show ?thesis
  proof (cases "db_ok env")
    case True
    with f post_created [of b a c d env store] show ?thesis by simp
  next
    case False
    with f show ?thesis
      by (simp add: post_api_expenses_def num_field_def str_field_def save_def)
  qed
qed

text \<open>
  C1 (as amended). Create: a request in which amount, category or date is absent is answered
  400 and nothing is stored; a request with all three present, amount not zero, category and
  date non-empty is answered 201 (the store answering) with the stored record, whose \<open>_id\<close>
  is the assigned identifier, and the record is appended; there is no range check, so a
  negative amount is among the accepted ones; an amount of exactly zero is falsy and is
  answered 400, nothing stored.
\<close>

theorem post_expenses_validation:
  "(body_amount b = None \<or> body_category b = None \<or> body_date b = None \<longrightarrow>
      post_api_expenses env b store =
        ((400, message ''Please provide amount, category, and date''), store))
   \<and> (body_amount b = Some a \<and> a \<noteq> 0 \<and> body_category b = Some c \<and> c \<noteq> []
        \<and> body_date b = Some d \<and> d \<noteq> [] \<and> db_ok env \<longrightarrow>
      post_api_expenses env b store =
        ((201, doc_json (new_Expense env a c d (body_description b))),
         store @ [new_Expense env a c d (body_description b)])
      \<and> js_get (doc_json (new_Expense env a c d (body_description b))) ''_id''
          = JStr (new_id env))
   \<and> (body_amount b = Some 0 \<longrightarrow>
      post_api_expenses env b store =
        ((400, message ''Please provide amount, category, and date''), store))"
proof (intro conjI impI)
  assume "body_amount b = None \<or> body_category b = None \<or> body_date b = None"
  then show "post_api_expenses env b store =
      ((400, message ''Please provide amount, category, and date''), store)"
    by (rule post_missing_field)
next
  assume h: "body_amount b = Some a \<and> a \<noteq> 0 \<and> body_category b = Some c \<and> c \<noteq> []
        \<and> body_date b = Some d \<and> d \<noteq> [] \<and> db_ok env"
  then show "post_api_expenses env b store =
        ((201, doc_json (new_Expense env a c d (body_description b))),
         store @ [new_Expense env a c d (body_description b)])"
    using post_created [of b a c d env store] by simp
  show "js_get (doc_json (new_Expense env a c d (body_description b))) ''_id''
          = JStr (new_id env)"
    by (simp add: doc_json_id new_Expense_def)
next
  assume "body_amount b = Some 0"
  then show "post_api_expenses env b store =
      ((400, message ''Please provide amount, category, and date''), store)"
    by (rule post_zero_amount)
qed

theorem post_expenses_validation_witness:
  "post_api_expenses \<lparr>db_ok = True, new_id = ''id1'', now = ''t1''\<rparr>
      \<lparr>body_amount = Some 5, body_category = None, body_date = Some ''2025-01-15'',
       body_description = None\<rparr> []
     = ((400, message ''Please provide amount, category, and date''), [])
   \<and> post_api_expenses \<lparr>db_ok = True, new_id = ''id1'', now = ''t1''\<rparr>
      \<lparr>body_amount = Some (- 5), body_category = Some ''Food'', body_date = Some ''2025-01-15'',
       body_description = None\<rparr> []
     = ((201, doc_json \<lparr>doc_id = ''id1'', amount = - 5, category = ''Food'',
                        date = ''2025-01-15'', description = [], createdAt = ''t1''\<rparr>),
        [\<lparr>doc_id = ''id1'', amount = - 5, category = ''Food'',
          date = ''2025-01-15'', description = [], createdAt = ''t1''\<rparr>])
   \<and> post_api_expenses \<lparr>db_ok = True, new_id = ''id1'', now = ''t1''\<rparr>
      \<lparr>body_amount = Some 0, body_category = Some ''Food'', body_date = Some ''2025-01-15'',
       body_description = None\<rparr> []
     = ((400, message ''Please provide amount, category, and date''), [])"
  using
    post_expenses_validation [of
      "\<lparr>body_amount = Some 5, body_category = None, body_date = Some ''2025-01-15'',
        body_description = None\<rparr>"
      "\<lparr>db_ok = True, new_id = ''id1'', now = ''t1''\<rparr>" "[]" 5 "''Food''" "''2025-01-15''"]
    post_expenses_validation [of
      "\<lparr>body_amount = Some (- 5), body_category = Some ''Food'',
        body_date = Some ''2025-01-15'', body_description = None\<rparr>"
      "\<lparr>db_ok = True, new_id = ''id1'', now = ''t1''\<rparr>" "[]" "- 5" "''Food''" "''2025-01-15''"]
    post_expenses_validation [of
      "\<lparr>body_amount = Some 0, body_category = Some ''Food'', body_date = Some ''2025-01-15'',
        body_description = None\<rparr>"
      "\<lparr>db_ok = True, new_id = ''id1'', now = ''t1''\<rparr>" "[]" 1 "''Food''" "''2025-01-15''"]
  by (simp add: new_Expense_def)

text \<open>
  The claim as first stated has a zero amount accepted. It is not: the request below, with
  every field present and amount 0, is answered 400 and the collection stays empty.
\<close>

theorem post_zero_amount_counterexample:
  "fst (post_api_expenses \<lparr>db_ok = True, new_id = ''id1'', now = ''t1''\<rparr>
          \<lparr>body_amount = Some 0, body_category = Some ''Food'',
           body_date = Some ''2025-01-15'', body_description = None\<rparr> [])
     = (400, message ''Please provide amount, category, and date'')
   \<and> snd (post_api_expenses \<lparr>db_ok = True, new_id = ''id1'', now = ''t1''\<rparr>
          \<lparr>body_amount = Some 0, body_category = Some ''Food'',
           body_date = Some ''2025-01-15'', body_description = None\<rparr> []) = []"
  by (simp add: post_api_expenses_def num_field_def)

text \<open>
  C9. Create: a body whose category or date is the empty string is answered 400 and nothing
  is stored; so whenever the endpoint answers 201, the one record it has appended has a
  non-empty category and a non-empty date, and with any other answer the collection is
  unchanged.
\<close>

theorem post_rejects_empty_strings:
  "(body_category b = Some [] \<or> body_date b = Some [] \<longrightarrow>
      post_api_expenses env b store =
        ((400, message ''Please provide amount, category, and date''), store))
   \<and> (fst (fst (post_api_expenses env b store)) = 201 \<longrightarrow>
        (\<exists>doc. post_api_expenses env b store = ((201, doc_json doc), store @ [doc])
           \<and> category doc \<noteq> [] \<and> date doc \<noteq> []))
   \<and> (fst (fst (post_api_expenses env b store)) \<noteq> 201 \<longrightarrow>
        snd (post_api_expenses env b store) = store)"
proof (intro conjI impI)
  assume "body_category b = Some [] \<or> body_date b = Some []"
  then show "post_api_expenses env b store =
      ((400, message ''Please provide amount, category, and date''), store)"
    by (rule post_empty_string)
next
  assume "fst (fst (post_api_expenses env b store)) = 201"
  with post_status_cases [of env b store]
  obtain a c d where "c \<noteq> []" "d \<noteq> []"
    and "post_api_expenses env b store =
          ((201, doc_json (new_Expense env a c d (body_description b))),
           store @ [new_Expense env a c d (body_description b)])"
    by auto
  then show "\<exists>doc. post_api_expenses env b store = ((201, doc_json doc), store @ [doc])
           \<and> category doc \<noteq> [] \<and> date doc \<noteq> []"
    by (intro exI [of _ "new_Expense env a c d (body_description b)"])
       (simp add: new_Expense_def)
next
  assume "fst (fst (post_api_expenses env b store)) \<noteq> 201"
  with post_status_cases [of env b store]
  show "snd (post_api_expenses env b store) = store"
    by auto
qed

theorem post_rejects_empty_strings_witness:
  "post_api_expenses \<lparr>db_ok = True, new_id = ''id1'', now = ''t1''\<rparr>
      \<lparr>body_amount = Some 5, body_category = Some [], body_date = Some ''2025-01-15'',
       body_description = None\<rparr> []
     = ((400, message ''Please provide amount, category, and date''), [])
   \<and> (\<exists>doc. post_api_expenses \<lparr>db_ok = True, new_id = ''id1'', now = ''t1''\<rparr>
        \<lparr>body_amount = Some 5, body_category = Some ''Food'', body_date = Some ''2025-01-15'',
         body_description = None\<rparr> [] = ((201, doc_json doc), [doc])
        \<and> category doc \<noteq> [] \<and> date doc \<noteq> [])"
proof -
  have ok: "fst (fst (post_api_expenses \<lparr>db_ok = True, new_id = ''id1'', now = ''t1''\<rparr>
        \<lparr>body_amount = Some 5, body_category = Some ''Food'', body_date = Some ''2025-01-15'',
         body_description = None\<rparr> [])) = 201"
    by (simp add: post_api_expenses_def num_field_def str_field_def save_def)
  show ?thesis
    using ok
      post_rejects_empty_strings [of
        "\<lparr>body_amount = Some 5, body_category = Some [], body_date = Some ''2025-01-15'',
          body_description = None\<rparr>"
        "\<lparr>db_ok = True, new_id = ''id1'', now = ''t1''\<rparr>" "[]"]
      post_rejects_empty_strings [of
        "\<lparr>body_amount = Some 5, body_category = Some ''Food'',
          body_date = Some ''2025-01-15'', body_description = None\<rparr>"
        "\<lparr>db_ok = True, new_id = ''id1'', now = ''t1''\<rparr>" "[]"]
    by simp
qed

subsection \<open>Sorting and filtering\<close>

lemma mset_sort_desc: "mset (sort_desc f xs) = mset xs"
  by (simp add: sort_desc_def)


lemma sorted_sort_desc: "sorted_wrt (\<lambda>a b. f b \<le> f a) (sort_desc f xs)"
proof -
  have "sorted (map f (sort_key f (rev xs)))" by (rule sorted_sort_key)
  then have "sorted_wrt (\<lambda>a b. f a \<le> f b) (sort_key f (rev xs))"
    by (simp add: sorted_wrt_map)
  then show ?thesis
    by (simp add: sort_desc_def sorted_wrt_rev)
qed

lemma matches_build_query:
  "matches (build_query cp dp) e =
     ((\<forall>c. cp = Some c \<and> c \<noteq> [] \<longrightarrow> category e = c)
      \<and> (\<forall>d. dp = Some d \<and> d \<noteq> [] \<longrightarrow> date e = d))"
  by (cases cp; cases dp) (auto simp: matches_def build_query_def str_field_def)

text \<open>
  C4 (as amended). List: the answer is the JSON of \<open>find_expenses\<close>. With no parameters it
  holds every stored record. In general it holds exactly the stored records that agree, by
  equality of strings (so case matters), with each parameter that is supplied and not
  empty; a parameter that is missing or is the empty string filters nothing. In every case
  the records come by date string descending, compared lexicographically.
\<close>

theorem list_expenses_filter_sorted:
  "get_api_expenses True cp dp store = (200, JArr (map doc_json (find_expenses cp dp store)))
   \<and> mset (find_expenses None None store) = mset store
   \<and> mset (find_expenses cp dp store)
       = mset (filter (\<lambda>e. (cp = None \<or> cp = Some [] \<or> cp = Some (category e))
                          \<and> (dp = None \<or> dp = Some [] \<or> dp = Some (date e))) store)
   \<and> sorted_wrt (\<lambda>a b. date b \<le> date a) (find_expenses cp dp store)"
proof (intro conjI)
  show "get_api_expenses True cp dp store = (200, JArr (map doc_json (find_expenses cp dp store)))"
    by (simp add: get_api_expenses_def)
  show "mset (find_expenses None None store) = mset store"
    by (simp add: find_expenses_def mset_sort_desc matches_build_query)
  have "matches (build_query cp dp) = (\<lambda>e. (cp = None \<or> cp = Some [] \<or> cp = Some (category e))
                          \<and> (dp = None \<or> dp = Some [] \<or> dp = Some (date e)))"
    by (rule ext) (auto simp: matches_build_query)
  then show "mset (find_expenses cp dp store)
       = mset (filter (\<lambda>e. (cp = None \<or> cp = Some [] \<or> cp = Some (category e))
                          \<and> (dp = None \<or> dp = Some [] \<or> dp = Some (date e))) store)"
    by (simp add: find_expenses_def mset_sort_desc)
  show "sorted_wrt (\<lambda>a b. date b \<le> date a) (find_expenses cp dp store)"
    unfolding find_expenses_def by (rule sorted_sort_desc)
qed

theorem list_expenses_filter_sorted_witness:
  "get_api_expenses True None None [sample_transport, sample_food]
     = (200, JArr [doc_json sample_food, doc_json sample_transport])
   \<and> get_api_expenses True (Some ''Food'') None [sample_transport, sample_food]
     = (200, JArr [doc_json sample_food])
   \<and> get_api_expenses True (Some ''food'') None [sample_transport, sample_food]
     = (200, JArr [])
   \<and> get_api_expenses True (Some ''Food'') (Some ''2025-01-14'') [sample_transport, sample_food]
     = (200, JArr [])
   \<and> sorted_wrt (\<lambda>a b. date b \<le> date a) (find_expenses None None [sample_transport, sample_food])"
  using list_expenses_filter_sorted [of None None "[sample_transport, sample_food]"]
    list_expenses_filter_sorted [of "Some ''Food''" None "[sample_transport, sample_food]"]
    list_expenses_filter_sorted [of "Some ''food''" None "[sample_transport, sample_food]"]
    list_expenses_filter_sorted [of "Some ''Food''" "Some ''2025-01-14''" "[sample_transport, sample_food]"]
  by (simp add: find_expenses_def build_query_def matches_def str_field_def sort_desc_def
      sample_food_def sample_transport_def)

text \<open>
  The claim as first stated has every supplied parameter matched exactly. With
  \<open>?category=\<close> the supplied string is empty; no stored record has an empty category, yet
  the endpoint returns the whole collection.
\<close>

theorem list_empty_category_counterexample:
  "get_api_expenses True (Some []) None [sample_food] = (200, JArr [doc_json sample_food])
   \<and> filter (\<lambda>e. category e = []) [sample_food] = []"
  by (simp add: get_api_expenses_def find_expenses_def build_query_def matches_def str_field_def
      sort_desc_def sample_food_def)

text \<open>
  C3 (as amended). Range total: when \<open>start\<close> or \<open>end\<close> is missing or empty the answer is
  400; when both are non-empty (the store answering) it is \<open>{total: s}\<close>, \<open>s\<close> what adding
  from 0, left to right in stored order and in binary64 arithmetic, makes of the amounts of
  exactly the stored records whose date string lies in \<open>[start, end]\<close>, both ends included,
  by string comparison; a sum that has overflowed is written \<open>null\<close>. When no addition
  rounds or overflows, \<open>s\<close> is the arithmetic sum of those amounts.
\<close>

theorem range_total_sum:
  "(start_param = None \<or> start_param = Some [] \<or> end_param = None \<or> end_param = Some [] \<longrightarrow>
      get_api_expenses_total ok start_param end_param store
        = (400, message ''Please provide start and end dates''))
   \<and> (start_param = Some s \<and> s \<noteq> [] \<and> end_param = Some e \<and> e \<noteq> [] \<and> ok \<longrightarrow>
      get_api_expenses_total ok start_param end_param store
        = (200, JObj [(''total'',
             json_number (sum64 (map amount (filter (\<lambda>x. s \<le> date x \<and> date x \<le> e) store))))])
      \<and> (adds_exactly 0 (map amount (filter (\<lambda>x. s \<le> date x \<and> date x \<le> e) store)) \<longrightarrow>
           get_api_expenses_total ok start_param end_param store
             = (200, JObj [(''total'',
                  JNum (sum_list (map amount (filter (\<lambda>x. s \<le> date x \<and> date x \<le> e) store))))])))"
proof (intro conjI impI)
  assume "start_param = None \<or> start_param = Some [] \<or> end_param = None \<or> end_param = Some []"
  then show "get_api_expenses_total ok start_param end_param store
        = (400, message ''Please provide start and end dates'')"
    by (cases start_param; cases end_param) (auto simp: get_api_expenses_total_def)
next
  assume h: "start_param = Some s \<and> s \<noteq> [] \<and> end_param = Some e \<and> e \<noteq> [] \<and> ok"
  then show r: "get_api_expenses_total ok start_param end_param store
        = (200, JObj [(''total'',
             json_number (sum64 (map amount (filter (\<lambda>x. s \<le> date x \<and> date x \<le> e) store))))])"
    by (simp add: get_api_expenses_total_def find_between_def reduce_amounts_sum64)
  assume "adds_exactly 0 (map amount (filter (\<lambda>x. s \<le> date x \<and> date x \<le> e) store))"
  then show "get_api_expenses_total ok start_param end_param store
             = (200, JObj [(''total'',
                  JNum (sum_list (map amount (filter (\<lambda>x. s \<le> date x \<and> date x \<le> e) store))))])"
    by (simp add: r sum64_exact json_number_def)
qed

theorem range_total_sum_witness:
  "get_api_expenses_total True None (Some ''2025-01-15'') [sample_food, sample_transport]
     = (400, message ''Please provide start and end dates'')
   \<and> get_api_expenses_total True (Some ''2025-01-01'') (Some ''2025-01-14'')
        [sample_food, sample_transport]
     = (200, JObj [(''total'', JNum (25 / 2))])
   \<and> get_api_expenses_total True (Some ''2025-01-01'') (Some ''2025-01-31'')
        [sample_food\<lparr>amount := fl64 (1 / 10)\<rparr>, sample_transport\<lparr>amount := fl64 (1 / 5)\<rparr>]
     = (200, JObj [(''total'', JNum (1351079888211149 / 4503599627370496))])"
proof -
  have ex: "adds_exactly 0 (map amount (filter (\<lambda>x. ''2025-01-01'' \<le> date x \<and> date x \<le> ''2025-01-14'')
      [sample_food, sample_transport]))"
    by (simp add: sample_food_def sample_transport_def adds_exactly_transport del: adds_exactly.simps)
  show ?thesis
    using ex
      range_total_sum [of None "Some ''2025-01-15''" True "[sample_food, sample_transport]"
        "''x''" "''y''"]
      range_total_sum [of "Some ''2025-01-01''" "Some ''2025-01-14''" True
        "[sample_food, sample_transport]" "''2025-01-01''" "''2025-01-14''"]
      range_total_sum [of "Some ''2025-01-01''" "Some ''2025-01-31''" True
        "[sample_food\<lparr>amount := fl64 (1 / 10)\<rparr>, sample_transport\<lparr>amount := fl64 (1 / 5)\<rparr>]"
        "''2025-01-01''" "''2025-01-31''"]
    by (simp add: sample_food_def sample_transport_def sum64_tenth_fifth sum64_transport
        json_number_def del: adds_exactly.simps)
qed

text \<open>
  The claim as first stated answers 400 only when a bound is missing, and otherwise the
  arithmetic sum. With \<open>?start=\<close> the bound is there and empty: the answer is 400, not the
  sum over the dates from the empty string to \<open>end\<close>. With the amounts 0.1 and 0.2 in range
  the total is 0.30000000000000004, which is not the sum of the two stored numbers (that sum
  is no double). With \<open>2^1023\<close> twice the total is written \<open>null\<close>.
\<close>

theorem range_total_empty_bound_counterexample:
  "get_api_expenses_total True (Some []) (Some ''2025-01-15'') [sample_food]
     = (400, message ''Please provide start and end dates'')
   \<and> get_api_expenses_total True (Some ''2025-01-01'') (Some ''2025-01-31'')
        [sample_food\<lparr>amount := fl64 (1 / 10)\<rparr>, sample_transport\<lparr>amount := fl64 (1 / 5)\<rparr>]
     = (200, JObj [(''total'', JNum (1351079888211149 / 4503599627370496))])
   \<and> sum_list (map amount
        [sample_food\<lparr>amount := fl64 (1 / 10)\<rparr>, sample_transport\<lparr>amount := fl64 (1 / 5)\<rparr>])
     = 10808639105689191 / 36028797018963968
   \<and> (1351079888211149 / 4503599627370496 :: rat) \<noteq> 10808639105689191 / 36028797018963968
   \<and> get_api_expenses_total True (Some ''2025-01-01'') (Some ''2025-01-31'')
        [sample_food\<lparr>amount := 2 ^ 1023\<rparr>, sample_transport\<lparr>amount := 2 ^ 1023\<rparr>]
     = (200, JObj [(''total'', JNull)])"
proof (intro conjI)
  show "get_api_expenses_total True (Some []) (Some ''2025-01-15'') [sample_food]
     = (400, message ''Please provide start and end dates'')"
    by (simp add: get_api_expenses_total_def)
  show "get_api_expenses_total True (Some ''2025-01-01'') (Some ''2025-01-31'')
        [sample_food\<lparr>amount := fl64 (1 / 10)\<rparr>, sample_transport\<lparr>amount := fl64 (1 / 5)\<rparr>]
     = (200, JObj [(''total'', JNum (1351079888211149 / 4503599627370496))])"
    by (simp add: get_api_expenses_total_def find_between_def reduce_amounts_sum64
        sample_food_def sample_transport_def sum64_tenth_fifth json_number_def)
  show "sum_list (map amount
        [sample_food\<lparr>amount := fl64 (1 / 10)\<rparr>, sample_transport\<lparr>amount := fl64 (1 / 5)\<rparr>])
     = 10808639105689191 / 36028797018963968"
    by (simp add: tenth_fifth_exact)
  show "(1351079888211149 / 4503599627370496 :: rat) \<noteq> 10808639105689191 / 36028797018963968"
    by simp
  have "map amount (find_between ''2025-01-01'' ''2025-01-31''
      [sample_food\<lparr>amount := 2 ^ 1023\<rparr>, sample_transport\<lparr>amount := 2 ^ 1023\<rparr>])
      = [2 ^ 1023, 2 ^ 1023]"
    by (simp add: find_between_def sample_food_def sample_transport_def del: power_numeral)
  then have "reduce_amounts (find_between ''2025-01-01'' ''2025-01-31''
      [sample_food\<lparr>amount := 2 ^ 1023\<rparr>, sample_transport\<lparr>amount := 2 ^ 1023\<rparr>]) = PosInfinity"
    by (simp only: reduce_amounts_sum64 sum64_overflow)
  then show "get_api_expenses_total True (Some ''2025-01-01'') (Some ''2025-01-31'')
        [sample_food\<lparr>amount := 2 ^ 1023\<rparr>, sample_transport\<lparr>amount := 2 ^ 1023\<rparr>]
     = (200, JObj [(''total'', JNull)])"
    by (simp add: get_api_expenses_total_def json_number_def del: power_numeral)
qed

subsection \<open>Grouping\<close>












section \<open>Properties of the client\<close>

subsection \<open>The shape check\<close>

lemma calculateTotal_sum64:
  "calculateTotal xs s = s\<lparr>totalAmount := sum64 (map exp_amount xs)\<rparr>"
  by (simp add: calculateTotal_def sum64_def foldl_map)

lemma typeof_string: "typeof v = ''string'' \<longleftrightarrow> (\<exists>t. v = JStr t)"
  by (cases v) simp_all

lemma isValidExpense_iff:
  "isValidExpense x \<longleftrightarrow>
     (\<exists>kvs a c d. x = JObj kvs
        \<and> js_get x ''amount'' = JNum a \<and> 0 < a
        \<and> js_get x ''category'' = JStr c \<and> js_trim c \<noteq> []
        \<and> js_get x ''date'' = JStr d \<and> js_trim d \<noteq> []
        \<and> (js_get x ''description'' = JUndefined \<or> (\<exists>t. js_get x ''description'' = JStr t)))"
proof (cases x)
  case (JObj kvs)
  then show ?thesis
    unfolding isValidExpense_def typeof_string
    by (auto split: jsval.splits)
qed (simp_all add: isValidExpense_def)

lemma string_amount_invalid: "js_get x ''amount'' = JStr t \<Longrightarrow> \<not> isValidExpense x"
  by (auto simp: isValidExpense_iff)

lemma as_expense_None: "as_expense x = None \<longleftrightarrow> \<not> isValidExpense x"
proof
  assume "as_expense x = None"
  show "\<not> isValidExpense x"
  proof
    assume v: "isValidExpense x"
    then obtain a c d where "js_get x ''amount'' = JNum a" "js_get x ''category'' = JStr c"
      "js_get x ''date'' = JStr d"
      unfolding isValidExpense_iff by blast
    with v have "as_expense x \<noteq> None" by (simp add: as_expense_def)
    with \<open>as_expense x = None\<close> show False by simp
  qed
next
  assume "\<not> isValidExpense x"
  then show "as_expense x = None" by (simp add: as_expense_def)
qed

lemma as_expense_Some:
  "as_expense x = Some r \<longleftrightarrow>
     isValidExpense x
     \<and> js_get x ''amount'' = JNum (exp_amount r)
     \<and> js_get x ''category'' = JStr (exp_category r)
     \<and> js_get x ''date'' = JStr (exp_date r)
     \<and> js_get x ''_id'' = exp_id r
     \<and> (case exp_description r of
           None \<Rightarrow> js_get x ''description'' = JUndefined
         | Some t \<Rightarrow> js_get x ''description'' = JStr t)"
proof (cases "isValidExpense x")
  case False
  then show ?thesis by (simp add: as_expense_def)
next
  case True
  then obtain a c d where f: "js_get x ''amount'' = JNum a" "js_get x ''category'' = JStr c"
    "js_get x ''date'' = JStr d"
    and desc: "js_get x ''description'' = JUndefined \<or> (\<exists>t. js_get x ''description'' = JStr t)"
    unfolding isValidExpense_iff by blast
  from desc show ?thesis
  proof
    assume "js_get x ''description'' = JUndefined"
    with True f show ?thesis
      by (cases r) (auto simp: as_expense_def split: option.splits)
  next
    assume "\<exists>t. js_get x ''description'' = JStr t"
    then obtain t where "js_get x ''description'' = JStr t" ..
    with True f show ?thesis
      by (cases r) (auto simp: as_expense_def split: option.splits)
  qed
qed

lemma filter_valid_images:
  "map Some (filter_valid data) = map as_expense (filter isValidExpense data)"
proof (induction data)
  case Nil
  show ?case by (simp add: filter_valid_def List.map_filter_simps)
next
  case (Cons x xs)
  show ?case
  proof (cases "as_expense x")
    case None
    then have "\<not> isValidExpense x" by (simp add: as_expense_None)
    with None Cons show ?thesis by (simp add: filter_valid_def List.map_filter_simps)
  next
    case (Some r)
    then have "isValidExpense x" using as_expense_None [of x] by auto
    with Some Cons show ?thesis by (simp add: filter_valid_def List.map_filter_simps)
  qed
qed

lemma filter_valid_drop:
  assumes "\<not> isValidExpense x"
  shows "filter_valid (filter (\<lambda>y. y \<noteq> x) data) = filter_valid data"
proof (induction data)
  case Nil
  show ?case by simp
next
  case (Cons y ys)
  show ?case
  proof (cases "y = x")
    case True
    with assms have "as_expense y = None" by (simp add: as_expense_None)
    with True Cons show ?thesis by (simp add: filter_valid_def List.map_filter_simps)
  next
    case False
    with Cons show ?thesis
      by (simp add: filter_valid_def List.map_filter_simps split: option.splits)
  qed
qed

lemma fetchExpenses_array:
  assumes "net (Get ''http://localhost:5000/api/expenses'' []) = HttpResponse status (Some (JArr data))"
    and "response_ok status"
  shows "fetchExpenses net s =
           s\<lparr>loading := False, error := None,
             expenses := filter_valid data,
             filteredExpenses := filter_valid data,
             totalAmount := sum64 (map exp_amount (filter_valid data))\<rparr>"
  using assms
  by (simp add: fetchExpenses_def apiRequest_def expect_array_def calculateTotal_sum64 Let_def)

text \<open>
  C5 (as amended). Load, given the fetched array: the elements kept are exactly those that
  pass \<open>isValidExpense\<close>, that is the objects whose amount is a number greater than 0, whose
  category and date are strings that are not empty once trimmed of white space, and whose
  description is absent or a string; they are kept in order, each with its amount,
  category, date, description and \<open>_id\<close>; the rest are dropped and no error is set. Both
  the full and the filtered list become the kept elements, and the displayed total what
  adding their amounts from 0, left to right in binary64 arithmetic, gives: their arithmetic
  sum when no addition rounds or overflows. In particular an element whose amount is the
  string \<open>abc\<close> is in neither list nor in the total: the lists and the total are those of
  the array without it.
\<close>

theorem load_keeps_valid:
  "(net (Get ''http://localhost:5000/api/expenses'' []) = HttpResponse status (Some (JArr data))
      \<and> response_ok status \<longrightarrow>
      fetchExpenses net s =
        s\<lparr>loading := False, error := None,
          expenses := filter_valid data,
          filteredExpenses := filter_valid data,
          totalAmount := sum64 (map exp_amount (filter_valid data))\<rparr>
      \<and> (adds_exactly 0 (map exp_amount (filter_valid data)) \<longrightarrow>
            totalAmount (fetchExpenses net s)
              = Finite (sum_list (map exp_amount (filter_valid data))))
      \<and> (js_get x ''amount'' = JStr ''abc'' \<longrightarrow>
            expenses (fetchExpenses net s) = filter_valid (filter (\<lambda>y. y \<noteq> x) data)
            \<and> filteredExpenses (fetchExpenses net s) = filter_valid (filter (\<lambda>y. y \<noteq> x) data)
            \<and> totalAmount (fetchExpenses net s)
                = sum64 (map exp_amount (filter_valid (filter (\<lambda>y. y \<noteq> x) data)))))
   \<and> map Some (filter_valid data) = map as_expense (filter isValidExpense data)
   \<and> (as_expense x = Some r \<longleftrightarrow>
        isValidExpense x
        \<and> js_get x ''amount'' = JNum (exp_amount r)
        \<and> js_get x ''category'' = JStr (exp_category r)
        \<and> js_get x ''date'' = JStr (exp_date r)
        \<and> js_get x ''_id'' = exp_id r
        \<and> (case exp_description r of
              None \<Rightarrow> js_get x ''description'' = JUndefined
            | Some t \<Rightarrow> js_get x ''description'' = JStr t))
   \<and> (isValidExpense x \<longleftrightarrow>
        (\<exists>kvs a c d. x = JObj kvs
           \<and> js_get x ''amount'' = JNum a \<and> 0 < a
           \<and> js_get x ''category'' = JStr c \<and> js_trim c \<noteq> []
           \<and> js_get x ''date'' = JStr d \<and> js_trim d \<noteq> []
           \<and> (js_get x ''description'' = JUndefined \<or> (\<exists>t. js_get x ''description'' = JStr t))))"
proof (intro conjI impI)
  show "isValidExpense x \<longleftrightarrow>
        (\<exists>kvs a c d. x = JObj kvs
           \<and> js_get x ''amount'' = JNum a \<and> 0 < a
           \<and> js_get x ''category'' = JStr c \<and> js_trim c \<noteq> []
           \<and> js_get x ''date'' = JStr d \<and> js_trim d \<noteq> []
           \<and> (js_get x ''description'' = JUndefined \<or> (\<exists>t. js_get x ''description'' = JStr t)))"
    by (rule isValidExpense_iff)
  show "map Some (filter_valid data) = map as_expense (filter isValidExpense data)"
    by (rule filter_valid_images)
  show "as_expense x = Some r \<longleftrightarrow>
        isValidExpense x
        \<and> js_get x ''amount'' = JNum (exp_amount r)
        \<and> js_get x ''category'' = JStr (exp_category r)
        \<and> js_get x ''date'' = JStr (exp_date r)
        \<and> js_get x ''_id'' = exp_id r
        \<and> (case exp_description r of
              None \<Rightarrow> js_get x ''description'' = JUndefined
            | Some t \<Rightarrow> js_get x ''description'' = JStr t)"
    by (rule as_expense_Some)
next
  assume "net (Get ''http://localhost:5000/api/expenses'' []) = HttpResponse status (Some (JArr data))
      \<and> response_ok status"
  then show st: "fetchExpenses net s =
        s\<lparr>loading := False, error := None,
          expenses := filter_valid data,
          filteredExpenses := filter_valid data,
          totalAmount := sum64 (map exp_amount (filter_valid data))\<rparr>"
    by (simp add: fetchExpenses_array)
  {
    assume "adds_exactly 0 (map exp_amount (filter_valid data))"
    then show "totalAmount (fetchExpenses net s)
              = Finite (sum_list (map exp_amount (filter_valid data)))"
      by (simp add: st sum64_exact)
  }
  assume "js_get x ''amount'' = JStr ''abc''"
  then have "\<not> isValidExpense x" by (rule string_amount_invalid)
  then have same: "filter_valid (filter (\<lambda>y. y \<noteq> x) data) = filter_valid data"
    by (rule filter_valid_drop)
  show "expenses (fetchExpenses net s) = filter_valid (filter (\<lambda>y. y \<noteq> x) data)"
    and "filteredExpenses (fetchExpenses net s) = filter_valid (filter (\<lambda>y. y \<noteq> x) data)"
    and "totalAmount (fetchExpenses net s)
                = sum64 (map exp_amount (filter_valid (filter (\<lambda>y. y \<noteq> x) data)))"
    by (simp_all add: st same)
qed

theorem load_keeps_valid_witness:
  "fetchExpenses
      (\<lambda>r. HttpResponse 200 (Some (JArr
         [JObj [(''amount'', JNum (25 / 2)), (''category'', JStr ''Food''),
                (''date'', JStr ''2025-01-15'')],
          JObj [(''amount'', JStr ''abc''), (''category'', JStr ''Food''),
                (''date'', JStr ''2025-01-15'')]])))
      (initial_state ''2025-01-20'')
     = (initial_state ''2025-01-20'')
         \<lparr>loading := False, error := None,
          expenses := [\<lparr>exp_id = JUndefined, exp_amount = 25 / 2, exp_category = ''Food'',
                        exp_date = ''2025-01-15'', exp_description = None\<rparr>],
          filteredExpenses := [\<lparr>exp_id = JUndefined, exp_amount = 25 / 2,
                                exp_category = ''Food'', exp_date = ''2025-01-15'',
                                exp_description = None\<rparr>],
          totalAmount := Finite (25 / 2)\<rparr>
   \<and> as_expense (JObj [(''amount'', JStr ''abc''), (''category'', JStr ''Food''),
                        (''date'', JStr ''2025-01-15'')]) = None"
proof -
  have ok: "response_ok 200" by (simp add: response_ok_def)
  have v: "as_expense (JObj [(''amount'', JNum (25 / 2)), (''category'', JStr ''Food''),
      (''date'', JStr ''2025-01-15'')])
      = Some \<lparr>exp_id = JUndefined, exp_amount = 25 / 2, exp_category = ''Food'',
               exp_date = ''2025-01-15'', exp_description = None\<rparr>"
    by (simp add: as_expense_def isValidExpense_def js_trim_def white_space_def)
  have b: "as_expense (JObj [(''amount'', JStr ''abc''), (''category'', JStr ''Food''),
      (''date'', JStr ''2025-01-15'')]) = None"
    by (simp add: as_expense_def isValidExpense_def)
  show ?thesis
    using ok v b
      load_keeps_valid [of
        "\<lambda>r. HttpResponse 200 (Some (JArr
           [JObj [(''amount'', JNum (25 / 2)), (''category'', JStr ''Food''),
                  (''date'', JStr ''2025-01-15'')],
            JObj [(''amount'', JStr ''abc''), (''category'', JStr ''Food''),
                  (''date'', JStr ''2025-01-15'')]]))"
        200
        "[JObj [(''amount'', JNum (25 / 2)), (''category'', JStr ''Food''),
                (''date'', JStr ''2025-01-15'')],
          JObj [(''amount'', JStr ''abc''), (''category'', JStr ''Food''),
                (''date'', JStr ''2025-01-15'')]]"
        "initial_state ''2025-01-20''"
        "JObj [(''amount'', JStr ''abc''), (''category'', JStr ''Food''),
               (''date'', JStr ''2025-01-15'')]"]
    by (simp add: filter_valid_def List.map_filter_simps sum64_transport)
qed

text \<open>
  The claim as first stated keeps every element whose category is a non-empty string, and
  shows the sum of the kept amounts. An element whose category is a single space is such an
  element, and Load drops it: the check is on the trimmed string. And with the kept amounts
  0.1 and 0.2 the displayed total is 0.30000000000000004, not the sum of the two numbers.
\<close>

theorem load_blank_category_counterexample:
  "expenses (fetchExpenses
      (\<lambda>r. HttpResponse 200 (Some (JArr
         [JObj [(''amount'', JNum 5), (''category'', JStr '' ''), (''date'', JStr ''2025-01-15'')]])))
      (initial_state ''2025-01-20'')) = []
   \<and> js_get (JObj [(''amount'', JNum 5), (''category'', JStr '' ''), (''date'', JStr ''2025-01-15'')])
        ''category'' = JStr '' ''
   \<and> '' '' \<noteq> []
   \<and> totalAmount (fetchExpenses
      (\<lambda>r. HttpResponse 200 (Some (JArr
         [JObj [(''amount'', JNum (fl64 (1 / 10))), (''category'', JStr ''Food''),
                (''date'', JStr ''2025-01-15'')],
          JObj [(''amount'', JNum (fl64 (1 / 5))), (''category'', JStr ''Food''),
                (''date'', JStr ''2025-01-14'')]])))
      (initial_state ''2025-01-20'')) = Finite (1351079888211149 / 4503599627370496)
   \<and> fl64 (1 / 10) + fl64 (1 / 5) = 10808639105689191 / 36028797018963968
   \<and> (1351079888211149 / 4503599627370496 :: rat) \<noteq> 10808639105689191 / 36028797018963968"
proof (intro conjI)
  show "expenses (fetchExpenses
      (\<lambda>r. HttpResponse 200 (Some (JArr
         [JObj [(''amount'', JNum 5), (''category'', JStr '' ''), (''date'', JStr ''2025-01-15'')]])))
      (initial_state ''2025-01-20'')) = []"
    by (simp add: fetchExpenses_def apiRequest_def expect_array_def calculateTotal_def
        response_ok_def filter_valid_def List.map_filter_simps as_expense_def isValidExpense_def
        js_trim_def white_space_def initial_state_def Let_def)
  show "js_get (JObj [(''amount'', JNum 5), (''category'', JStr '' ''), (''date'', JStr ''2025-01-15'')])
        ''category'' = JStr '' ''"
    by simp
  show "'' '' \<noteq> []" by simp
  have p1: "0 < fl64 (1 / 10)" and p2: "0 < fl64 (1 / 5)" by code_simp+
  have ok: "response_ok 200" by (simp add: response_ok_def)
  have "filter_valid
         [JObj [(''amount'', JNum (fl64 (1 / 10))), (''category'', JStr ''Food''),
                (''date'', JStr ''2025-01-15'')],
          JObj [(''amount'', JNum (fl64 (1 / 5))), (''category'', JStr ''Food''),
                (''date'', JStr ''2025-01-14'')]]
       = [\<lparr>exp_id = JUndefined, exp_amount = fl64 (1 / 10), exp_category = ''Food'',
            exp_date = ''2025-01-15'', exp_description = None\<rparr>,
          \<lparr>exp_id = JUndefined, exp_amount = fl64 (1 / 5), exp_category = ''Food'',
            exp_date = ''2025-01-14'', exp_description = None\<rparr>]"
    by (simp add: filter_valid_def List.map_filter_simps as_expense_def isValidExpense_def
        js_trim_def white_space_def p1 p2)
  then show "totalAmount (fetchExpenses
      (\<lambda>r. HttpResponse 200 (Some (JArr
         [JObj [(''amount'', JNum (fl64 (1 / 10))), (''category'', JStr ''Food''),
                (''date'', JStr ''2025-01-15'')],
          JObj [(''amount'', JNum (fl64 (1 / 5))), (''category'', JStr ''Food''),
                (''date'', JStr ''2025-01-14'')]])))
      (initial_state ''2025-01-20'')) = Finite (1351079888211149 / 4503599627370496)"
    using ok by (simp add: fetchExpenses_array sum64_tenth_fifth)
  show "fl64 (1 / 10) + fl64 (1 / 5) = 10808639105689191 / 36028797018963968"
    by (rule tenth_fifth_exact)
  show "(1351079888211149 / 4503599627370496 :: rat) \<noteq> 10808639105689191 / 36028797018963968"
    by simp
qed

subsection \<open>Range total, reset, failed filter\<close>

text \<open>
  C6. Compute range total: when the start or the end field is empty, the only change is the
  error message. When both are set and the request succeeds (a 2xx answer whose \<open>total\<close>
  is a number), the displayed total becomes that number and the filtered and the full list
  are unchanged; of the rest of the state, only the bookkeeping of the request moves
  (loading off, error cleared, filter dialog closed).
\<close>

theorem range_total_replaces_total:
  "(filterStartDate s = [] \<or> filterEndDate s = [] \<longrightarrow>
      getTotalForDateRange net s = s\<lparr>error := Some ''Please select both start and end dates''\<rparr>)
   \<and> (filterStartDate s \<noteq> [] \<and> filterEndDate s \<noteq> []
        \<and> net (total_request s) = HttpResponse status (Some data) \<and> response_ok status
        \<and> js_get data ''total'' = JNum t \<longrightarrow>
      getTotalForDateRange net s
        = s\<lparr>loading := False, error := None, totalAmount := Finite t, showFilterModal := False\<rparr>
      \<and> filteredExpenses (getTotalForDateRange net s) = filteredExpenses s
      \<and> expenses (getTotalForDateRange net s) = expenses s)"
proof (intro conjI impI)
  assume "filterStartDate s = [] \<or> filterEndDate s = []"
  then show "getTotalForDateRange net s
      = s\<lparr>error := Some ''Please select both start and end dates''\<rparr>"
    by (auto simp: getTotalForDateRange_def)
next
  assume h: "filterStartDate s \<noteq> [] \<and> filterEndDate s \<noteq> []
        \<and> net (total_request s) = HttpResponse status (Some data) \<and> response_ok status
        \<and> js_get data ''total'' = JNum t"
  then have "data \<noteq> JNull" by auto
  with h show st: "getTotalForDateRange net s
        = s\<lparr>loading := False, error := None, totalAmount := Finite t, showFilterModal := False\<rparr>"
    by (simp add: getTotalForDateRange_def apiRequest_def expect_total_def Let_def)
  show "filteredExpenses (getTotalForDateRange net s) = filteredExpenses s"
    and "expenses (getTotalForDateRange net s) = expenses s"
    by (simp_all add: st)
qed

theorem range_total_replaces_total_witness:
  "getTotalForDateRange (\<lambda>r. HttpResponse 200 (Some (JObj [(''total'', JNum 7)])))
      ((initial_state ''2025-01-20'')\<lparr>filterStartDate := ''2025-01-14''\<rparr>)
     = (initial_state ''2025-01-20'')
         \<lparr>filterStartDate := ''2025-01-14'',
          error := Some ''Please select both start and end dates''\<rparr>
   \<and> getTotalForDateRange (\<lambda>r. HttpResponse 200 (Some (JObj [(''total'', JNum 7)])))
      ((initial_state ''2025-01-20'')
         \<lparr>expenses := [sample_expense], filteredExpenses := [sample_expense], error := Some ''old'',
          filterStartDate := ''2025-01-14'', filterEndDate := ''2025-01-15''\<rparr>)
     = (initial_state ''2025-01-20'')
         \<lparr>expenses := [sample_expense], filteredExpenses := [sample_expense], error := None,
          filterStartDate := ''2025-01-14'', filterEndDate := ''2025-01-15'',
          loading := False, totalAmount := Finite 7, showFilterModal := False\<rparr>"
proof -
  have ok: "response_ok 200" by (simp add: response_ok_def)
  show ?thesis
    using ok
      range_total_replaces_total [of
        "(initial_state ''2025-01-20'')\<lparr>filterStartDate := ''2025-01-14''\<rparr>"
        "\<lambda>r. HttpResponse 200 (Some (JObj [(''total'', JNum 7)]))"
        200 "JObj [(''total'', JNum 7)]" 7]
      range_total_replaces_total [of
        "(initial_state ''2025-01-20'')
           \<lparr>expenses := [sample_expense], filteredExpenses := [sample_expense], error := Some ''old'',
            filterStartDate := ''2025-01-14'', filterEndDate := ''2025-01-15''\<rparr>"
        "\<lambda>r. HttpResponse 200 (Some (JObj [(''total'', JNum 7)]))"
        200 "JObj [(''total'', JNum 7)]" 7]
    by (simp add: initial_state_def)
qed

text \<open>
  C7 (as amended). Reset filter, in every state: the filtered list becomes the full list,
  the displayed total what adding the full list's amounts from 0, left to right in binary64
  arithmetic, gives (their arithmetic sum when no addition rounds or overflows), the four
  filter fields are cleared, and the full list is unchanged.
\<close>

theorem reset_restores_full_list:
  "filteredExpenses (resetFilters s) = expenses s
   \<and> totalAmount (resetFilters s) = sum64 (map exp_amount (expenses s))
   \<and> (adds_exactly 0 (map exp_amount (expenses s)) \<longrightarrow>
        totalAmount (resetFilters s) = Finite (sum_list (map exp_amount (expenses s))))
   \<and> filterCategory (resetFilters s) = []
   \<and> filterDate (resetFilters s) = []
   \<and> filterStartDate (resetFilters s) = []
   \<and> filterEndDate (resetFilters s) = []
   \<and> expenses (resetFilters s) = expenses s"
  by (simp add: resetFilters_def calculateTotal_sum64 sum64_exact)

theorem reset_restores_full_list_witness:
  "filteredExpenses (resetFilters ((initial_state ''2025-01-20'')
       \<lparr>expenses := [sample_expense\<lparr>exp_amount := 25 / 2\<rparr>],
        totalAmount := Finite 9, filterCategory := ''Housing'',
        filterEndDate := ''2025-01-31''\<rparr>))
     = [sample_expense\<lparr>exp_amount := 25 / 2\<rparr>]
   \<and> totalAmount (resetFilters ((initial_state ''2025-01-20'')
       \<lparr>expenses := [sample_expense\<lparr>exp_amount := 25 / 2\<rparr>],
        totalAmount := Finite 9, filterCategory := ''Housing'',
        filterEndDate := ''2025-01-31''\<rparr>)) = Finite (25 / 2)
   \<and> filterCategory (resetFilters ((initial_state ''2025-01-20'')
       \<lparr>expenses := [sample_expense\<lparr>exp_amount := 25 / 2\<rparr>],
        totalAmount := Finite 9, filterCategory := ''Housing'',
        filterEndDate := ''2025-01-31''\<rparr>)) = []
   \<and> filterEndDate (resetFilters ((initial_state ''2025-01-20'')
       \<lparr>expenses := [sample_expense\<lparr>exp_amount := 25 / 2\<rparr>],
        totalAmount := Finite 9, filterCategory := ''Housing'',
        filterEndDate := ''2025-01-31''\<rparr>)) = []"
proof -
  have ex: "adds_exactly 0 (map exp_amount (expenses ((initial_state ''2025-01-20'')
       \<lparr>expenses := [sample_expense\<lparr>exp_amount := 25 / 2\<rparr>],
        totalAmount := Finite 9, filterCategory := ''Housing'',
        filterEndDate := ''2025-01-31''\<rparr>)))"
    by (simp add: adds_exactly_transport del: adds_exactly.simps)
  show ?thesis
    using ex reset_restores_full_list [of "(initial_state ''2025-01-20'')
       \<lparr>expenses := [sample_expense\<lparr>exp_amount := 25 / 2\<rparr>],
        totalAmount := Finite 9, filterCategory := ''Housing'',
        filterEndDate := ''2025-01-31''\<rparr>"]
    by (simp add: sum64_transport del: adds_exactly.simps)
qed

text \<open>
  The claim as first stated shows the sum of the full list's amounts. With the amounts 0.1
  and 0.2 in the full list (as Load leaves them), the total after the reset is
  0.30000000000000004, which is not the sum of the two numbers.
\<close>

theorem reset_total_rounds_counterexample:
  "totalAmount (resetFilters ((initial_state ''2025-01-20'')
       \<lparr>expenses := [sample_expense\<lparr>exp_amount := fl64 (1 / 10)\<rparr>,
                     sample_expense\<lparr>exp_amount := fl64 (1 / 5)\<rparr>]\<rparr>))
     = Finite (1351079888211149 / 4503599627370496)
   \<and> sum_list (map exp_amount [sample_expense\<lparr>exp_amount := fl64 (1 / 10)\<rparr>,
                               sample_expense\<lparr>exp_amount := fl64 (1 / 5)\<rparr>])
     = 10808639105689191 / 36028797018963968
   \<and> (1351079888211149 / 4503599627370496 :: rat) \<noteq> 10808639105689191 / 36028797018963968"
  by (simp add: resetFilters_def calculateTotal_sum64 sum64_tenth_fifth tenth_fifth_exact)

text \<open>
  C10. Apply filter, failing (no answer from the network, an answer that is not 2xx, a body
  that is not JSON, or a body that is not an array): the filtered list becomes empty, the
  displayed total 0 and the error message is set, whatever they were before; the full list
  is unchanged.
\<close>

theorem filter_failure_clears:
  "(net (filter_request s) = NetworkFailure
    \<or> (net (filter_request s) = HttpResponse status body
        \<and> (\<not> response_ok status \<or> body = None
            \<or> (body = Some data \<and> (\<forall>xs. data \<noteq> JArr xs))))) \<longrightarrow>
     applyFilters net s
       = s\<lparr>loading := False, error := Some ''Error applying filters. Please try again.'',
           filteredExpenses := [], totalAmount := Finite 0\<rparr>
     \<and> expenses (applyFilters net s) = expenses s"
proof (intro impI)
  assume h: "net (filter_request s) = NetworkFailure
    \<or> (net (filter_request s) = HttpResponse status body
        \<and> (\<not> response_ok status \<or> body = None
            \<or> (body = Some data \<and> (\<forall>xs. data \<noteq> JArr xs))))"
  then have "\<exists>err. expect_array (apiRequest net (filter_request s)) = Inl err"
    by (auto simp: apiRequest_def expect_array_def split: jsval.splits)
  then have st: "applyFilters net s
       = s\<lparr>loading := False, error := Some ''Error applying filters. Please try again.'',
           filteredExpenses := [], totalAmount := Finite 0\<rparr>"
    by (auto simp: applyFilters_def Let_def)
  then show "applyFilters net s
       = s\<lparr>loading := False, error := Some ''Error applying filters. Please try again.'',
           filteredExpenses := [], totalAmount := Finite 0\<rparr>
     \<and> expenses (applyFilters net s) = expenses s"
    by simp
qed

theorem filter_failure_clears_witness:
  "applyFilters (\<lambda>r. HttpResponse 500 (Some (JObj [(''message'', JStr ''Server error'')])))
      ((initial_state ''2025-01-20'')
         \<lparr>expenses := [sample_expense], filteredExpenses := [sample_expense], totalAmount := Finite 3\<rparr>)
     = (initial_state ''2025-01-20'')
         \<lparr>expenses := [sample_expense], filteredExpenses := [], totalAmount := Finite 0, loading := False,
          error := Some ''Error applying filters. Please try again.''\<rparr>
   \<and> applyFilters (\<lambda>r. NetworkFailure)
      ((initial_state ''2025-01-20'')
         \<lparr>expenses := [sample_expense], filteredExpenses := [sample_expense], totalAmount := Finite 3\<rparr>)
     = (initial_state ''2025-01-20'')
         \<lparr>expenses := [sample_expense], filteredExpenses := [], totalAmount := Finite 0, loading := False,
          error := Some ''Error applying filters. Please try again.''\<rparr>
   \<and> applyFilters (\<lambda>r. HttpResponse 200 (Some (JObj [])))
      ((initial_state ''2025-01-20'')
         \<lparr>expenses := [sample_expense], filteredExpenses := [sample_expense], totalAmount := Finite 3\<rparr>)
     = (initial_state ''2025-01-20'')
         \<lparr>expenses := [sample_expense], filteredExpenses := [], totalAmount := Finite 0, loading := False,
          error := Some ''Error applying filters. Please try again.''\<rparr>"
proof -
  have bad: "\<not> response_ok 500" and ok: "response_ok 200"
    by (simp_all add: response_ok_def)
  show ?thesis
    using bad ok
      filter_failure_clears [of
        "\<lambda>r. HttpResponse 500 (Some (JObj [(''message'', JStr ''Server error'')]))"
        "(initial_state ''2025-01-20'')
           \<lparr>expenses := [sample_expense], filteredExpenses := [sample_expense], totalAmount := Finite 3\<rparr>"
        500 "Some (JObj [(''message'', JStr ''Server error'')])" JNull]
      filter_failure_clears [of "\<lambda>r. NetworkFailure"
        "(initial_state ''2025-01-20'')
           \<lparr>expenses := [sample_expense], filteredExpenses := [sample_expense], totalAmount := Finite 3\<rparr>"
        500 None JNull]
      filter_failure_clears [of "\<lambda>r. HttpResponse 200 (Some (JObj []))"
        "(initial_state ''2025-01-20'')
           \<lparr>expenses := [sample_expense], filteredExpenses := [sample_expense], totalAmount := Finite 3\<rparr>"
        200 "Some (JObj [])" "JObj []"]
    by (simp add: initial_state_def)
qed

section \<open>The two-record scenario\<close>

lemma fl64_scenario_first: "fl64 (0 + fl64 (4599 / 100)) = 0 + fl64 (4599 / 100)"
  by code_simp

lemma fl64_scenario_second:
  "fl64 (fl64 (4599 / 100) + fl64 (25 / 2)) = fl64 (4599 / 100) + fl64 (25 / 2)"
  by code_simp

text \<open>
  C8. The store holds exactly the two records, their amounts the doubles of the literals
  45.99 and 12.50. The range total from 2025-01-14 to 2025-01-15 answers \<open>{total: t}\<close>,
  \<open>t\<close> the double of the literal 58.49 (which \<open>JSON.stringify\<close> prints as 58.49). Both
  additions of the \<open>reduce\<close>, \<open>0 + 45.99\<close> and then \<open>+ 12.5\<close>, are exact in binary64: the
  exact sum is itself a double, so it is the sum JavaScript computes.
\<close>

theorem scenario_range_total:
  "get_api_expenses_total True (Some ''2025-01-14'') (Some ''2025-01-15'')
        [sample_food\<lparr>amount := fl64 (4599 / 100)\<rparr>, sample_transport\<lparr>amount := fl64 (25 / 2)\<rparr>]
     = (200, JObj [(''total'', JNum (fl64 (5849 / 100)))])
   \<and> fl64 (0 + fl64 (4599 / 100)) = 0 + fl64 (4599 / 100)
   \<and> fl64 (fl64 (4599 / 100) + fl64 (25 / 2)) = fl64 (4599 / 100) + fl64 (25 / 2)"
proof (intro conjI)
  have "sum64 [fl64 (4599 / 100), fl64 (25 / 2)] = Finite (fl64 (5849 / 100))"
    by code_simp
  then show "get_api_expenses_total True (Some ''2025-01-14'') (Some ''2025-01-15'')
        [sample_food\<lparr>amount := fl64 (4599 / 100)\<rparr>, sample_transport\<lparr>amount := fl64 (25 / 2)\<rparr>]
     = (200, JObj [(''total'', JNum (fl64 (5849 / 100)))])"
    by (simp add: get_api_expenses_total_def find_between_def reduce_amounts_sum64
        sample_food_def sample_transport_def json_number_def)
qed (rule fl64_scenario_first, rule fl64_scenario_second)

lemma fl64_58_49: "fl64 (5849 / 100) = 8231735693903135 / 140737488355328"
  by code_simp

theorem scenario_range_total_witness:
  "truthy (JStr ''2025-01-14'') \<and> truthy (JStr ''2025-01-15'')
   \<and> js_get (snd (get_api_expenses_total True (Some ''2025-01-14'') (Some ''2025-01-15'')
        [sample_food\<lparr>amount := fl64 (4599 / 100)\<rparr>,
         sample_transport\<lparr>amount := fl64 (25 / 2)\<rparr>])) ''total''
       = JNum (8231735693903135 / 140737488355328)
   \<and> \<bar>8231735693903135 / 140737488355328 - 5849 / 100\<bar> < (1 / 10 ^ 14 :: rat)"
  using scenario_range_total fl64_58_49 by simp

end
